theory Spec2Isabelle
  imports Complex_Main "HOL-Library.Sublist"
begin

section \<open>Data model (types.ts)\<close>

text \<open>
  The TypeScript interfaces become records, the string unions and the
  \<^verbatim>\<open>string | ContentPart[]\<close> union become datatypes, and an optional
  field \<^verbatim>\<open>f?: T\<close> becomes a field of type \<open>T option\<close>, with \<open>None\<close> for
  \<^verbatim>\<open>undefined\<close>.

  A \<^verbatim>\<open>string\<close> is a list of characters: only its \<^verbatim>\<open>length\<close>, its
  truthiness (non-emptiness) and concatenation are used by the code, so one
  \<open>char\<close> stands for one UTF-16 code unit. In the budget arithmetic a
  \<^verbatim>\<open>number\<close> is an \<open>int\<close>: window sizes, margins, token counts and the
  characters-per-token ratio are integers there, in the range where the doubles
  of the source are exact. The token estimator is given a second time over the
  type \<open>number\<close> below, whose ratio may also be \<^verbatim>\<open>NaN\<close> or an infinity.
  A ratio that is not an integer makes the result depend on the rounding of the
  division and is outside both models.
\<close>

datatype MessageRole = System | User | Assistant | Tool

datatype PartType = TextPart | ImageUrlPart

record ContentPart =
  part_type :: PartType
  part_text :: "string option"
  image_url :: "string option"

record ToolCall =
  call_id :: string
  call_name :: string
  arguments :: string

datatype Content = Str string | Parts "ContentPart list"

record Message =
  role :: MessageRole
  content :: Content
  name :: "string option"
  toolCallId :: "string option"
  toolCalls :: "ToolCall list option"

text \<open>
  \<^verbatim>\<open>TokenBudgetConfig\<close> and \<^verbatim>\<open>BuildHistoryInput\<close> share four fields; they are
  the parent record here, so that each field keeps its source name.
  \<^verbatim>\<open>ThreeTierConfig extends TokenBudgetConfig\<close> is a record extension as in
  the source.
\<close>

record BudgetFields =
  contextWindow :: int
  maxOutputTokens :: int
  systemMessage :: "string option"
  newUserMessage :: "string option"

record TokenBudgetConfig = BudgetFields +
  charsPerToken :: "int option"
  safetyMargin :: "int option"

record ThreeTierConfig = TokenBudgetConfig +
  maxSummaryBudgetTokens :: int

record ThreeTierSplitResult =
  firstPair :: "Message list"
  droppedMessages :: "Message list"
  recentMessages :: "Message list"
  processedThroughIndex :: int
  wasTruncated :: bool

section \<open>Token estimator (token-estimation.ts)\<close>

definition DEFAULT_CHARS_PER_TOKEN_ESTIMATE :: int where
  "DEFAULT_CHARS_PER_TOKEN_ESTIMATE = 4"

text \<open>
  A parameter with a default value, \<^verbatim>\<open>charsPerToken: number = DEFAULT\<close>,
  takes the default when the caller passes \<^verbatim>\<open>undefined\<close>.
\<close>

definition orDefault :: "int option \<Rightarrow> int" where
  "orDefault c = (case c of None \<Rightarrow> DEFAULT_CHARS_PER_TOKEN_ESTIMATE | Some r \<Rightarrow> r)"

text \<open>\<^verbatim>\<open>Math.ceil(a / b)\<close> on a length \<open>a\<close> and an integer \<open>b\<close>.\<close>

definition ceilDiv :: "nat \<Rightarrow> int \<Rightarrow> int" where
  "ceilDiv a b = \<lceil>real a / real_of_int b\<rceil>"

definition estimateStringTokens :: "string \<Rightarrow> int option \<Rightarrow> int" where
  "estimateStringTokens txt cpt =
     (let charsPerToken = orDefault cpt in
      if txt = [] \<or> charsPerToken \<le> 0 then 0
      else ceilDiv (length txt) charsPerToken)"

text \<open>
  The loop over the parts of a multi-part content, with \<open>totalChars\<close> as its
  accumulator. \<^verbatim>\<open>part.type === 'text' && part.text\<close> holds for a text part
  whose text is present and not empty.
\<close>

fun countChars :: "ContentPart list \<Rightarrow> nat \<Rightarrow> nat" where
  "countChars [] totalChars = totalChars"
| "countChars (part # rest) totalChars =
     (case part_text part of
        Some t \<Rightarrow>
          if part_type part = TextPart \<and> t \<noteq> []
          then countChars rest (totalChars + length t)
          else countChars rest totalChars
      | None \<Rightarrow> countChars rest totalChars)"

definition estimateContentTokens :: "Content \<Rightarrow> int option \<Rightarrow> int" where
  "estimateContentTokens c cpt =
     (case c of
        Str s \<Rightarrow> estimateStringTokens s cpt
      | Parts ps \<Rightarrow>
          (let charsPerToken = orDefault cpt in
           if charsPerToken \<le> 0 then 0
           else ceilDiv (countChars ps 0) charsPerToken))"

text \<open>
  The estimator over every ratio of this model's \<open>number\<close>: \<^verbatim>\<open>NaN\<close>, the two
  infinities and the integers. \<open>estimateStringTokens\<close> and
  \<open>estimateContentTokens\<close> above are its restriction to integer ratios, where
  every result is an integer (lemma \<open>estimator_on_integers\<close>).

  \<open>lessEqZero\<close> is the comparison \<^verbatim>\<open>x <= 0\<close>, false for \<^verbatim>\<open>NaN\<close>.
  \<open>ceilQuotient a b\<close> is \<^verbatim>\<open>Math.ceil(a / b)\<close> for a length \<open>a\<close>: a division by
  \<^verbatim>\<open>NaN\<close> is \<^verbatim>\<open>NaN\<close>, a division by an infinity is zero, a division by zero
  is \<^verbatim>\<open>NaN\<close> for \<open>a = 0\<close> and \<^verbatim>\<open>Infinity\<close> otherwise. For a length below
  \<open>2 ^ 53\<close> and a non-zero integer divisor, the ceiling of the rounded quotient
  is the ceiling of the exact one. Negative zero is not told apart from zero.
\<close>

datatype number = NaN | NegInfinity | Num int | PosInfinity

definition lessEqZero :: "number \<Rightarrow> bool" where
  "lessEqZero x =
     (case x of NaN \<Rightarrow> False | NegInfinity \<Rightarrow> True | Num i \<Rightarrow> i \<le> 0
      | PosInfinity \<Rightarrow> False)"

definition ceilQuotient :: "nat \<Rightarrow> number \<Rightarrow> number" where
  "ceilQuotient a b =
     (case b of
        NaN \<Rightarrow> NaN
      | NegInfinity \<Rightarrow> Num 0
      | PosInfinity \<Rightarrow> Num 0
      | Num i \<Rightarrow>
          if i = 0 then (if a = 0 then NaN else PosInfinity)
          else Num \<lceil>real a / real_of_int i\<rceil>)"

definition orDefaultNumber :: "number option \<Rightarrow> number" where
  "orDefaultNumber c =
     (case c of None \<Rightarrow> Num DEFAULT_CHARS_PER_TOKEN_ESTIMATE | Some r \<Rightarrow> r)"

definition estimateStringTokensNumber :: "string \<Rightarrow> number option \<Rightarrow> number" where
  "estimateStringTokensNumber txt cpt =
     (let charsPerToken = orDefaultNumber cpt in
      if txt = [] \<or> lessEqZero charsPerToken then Num 0
      else ceilQuotient (length txt) charsPerToken)"

definition estimateContentTokensNumber :: "Content \<Rightarrow> number option \<Rightarrow> number" where
  "estimateContentTokensNumber c cpt =
     (case c of
        Str s \<Rightarrow> estimateStringTokensNumber s cpt
      | Parts ps \<Rightarrow>
          (let charsPerToken = orDefaultNumber cpt in
           if lessEqZero charsPerToken then Num 0
           else ceilQuotient (countChars ps 0) charsPerToken))"

text \<open>The loop of \<^verbatim>\<open>estimateTotalTokens\<close> over the messages.\<close>

fun addMessageTokens :: "Message list \<Rightarrow> int option \<Rightarrow> int \<Rightarrow> int" where
  "addMessageTokens [] cpt tokens = tokens"
| "addMessageTokens (msg # rest) cpt tokens =
     addMessageTokens rest cpt (tokens + estimateContentTokens (content msg) cpt)"

definition estimateTotalTokens ::
  "string \<Rightarrow> Message list option \<Rightarrow> string option \<Rightarrow> int option \<Rightarrow> int" where
  "estimateTotalTokens inp messages sysMsg cpt =
     (let tokens = estimateStringTokens inp cpt;
          tokens = (case messages of None \<Rightarrow> tokens
                    | Some ms \<Rightarrow> addMessageTokens ms cpt tokens);
          tokens = (case sysMsg of None \<Rightarrow> tokens
                    | Some s \<Rightarrow> if s \<noteq> [] then tokens + estimateStringTokens s cpt else tokens)
      in tokens)"

section \<open>Budget splitter (memory-split.ts)\<close>

definition MIN_MESSAGES_FOR_FIRST_PAIR :: nat where
  "MIN_MESSAGES_FOR_FIRST_PAIR = 2"

definition DEFAULT_SAFETY_MARGIN :: int where
  "DEFAULT_SAFETY_MARGIN = 200"

text \<open>The truthiness test \<^verbatim>\<open>if (s)\<close> on an optional string: present and not empty.\<close>

definition truthy :: "string option \<Rightarrow> bool" where
  "truthy s = (case s of None \<Rightarrow> False | Some t \<Rightarrow> t \<noteq> [])"

text \<open>
  \<^verbatim>\<open>Array.prototype.slice(start, end)\<close>: a negative index counts from the end,
  and both indices are clamped to the array.
\<close>

definition sliceIndex :: "int \<Rightarrow> int \<Rightarrow> int" where
  "sliceIndex i len = (if i < 0 then max (len + i) 0 else min i len)"

definition slice :: "int \<Rightarrow> int \<Rightarrow> 'a list \<Rightarrow> 'a list" where
  "slice start end xs =
     (let len = int (length xs); k = sliceIndex start len; final = sliceIndex end len
      in take (nat (final - k)) (drop (nat k) xs))"

definition calculateHistoryBudget :: "'a TokenBudgetConfig_scheme \<Rightarrow> int" where
  "calculateHistoryBudget config =
     (let margin = (case safetyMargin config of None \<Rightarrow> DEFAULT_SAFETY_MARGIN | Some m \<Rightarrow> m);
          budget = contextWindow config - maxOutputTokens config - margin;
          budget = (if truthy (systemMessage config)
                    then budget - estimateStringTokens (the (systemMessage config)) (charsPerToken config)
                    else budget);
          budget = (if truthy (newUserMessage config)
                    then budget - estimateStringTokens (the (newUserMessage config)) (charsPerToken config)
                    else budget)
      in budget)"

text \<open>
  The backward walk \<^verbatim>\<open>for (let i = hi - 1; i >= lo; i--)\<close> of both splitter
  functions. The counter of the recursion is \<open>i + 1\<close>, so that the exit
  \<open>i = -1\<close> of the source is the counter \<open>0\<close>; \<open>kept\<close> is the array the loop
  pushes to, and a \<^verbatim>\<open>break\<close> returns it as it stands. The walk starts at
  \<open>length messages\<close>, so every read \<open>messages ! i\<close> is inside the array.
\<close>

fun walkBackward ::
  "Message list \<Rightarrow> int option \<Rightarrow> int \<Rightarrow> nat \<Rightarrow> nat \<Rightarrow> int \<Rightarrow> Message list \<Rightarrow> Message list" where
  "walkBackward messages cpt budget lo 0 usedTokens kept = kept"
| "walkBackward messages cpt budget lo (Suc i) usedTokens kept =
     (if i < lo then kept
      else
        (let msgTokens = estimateContentTokens (content (messages ! i)) cpt in
         if usedTokens + msgTokens > budget then kept
         else walkBackward messages cpt budget lo i (usedTokens + msgTokens) (kept @ [messages ! i])))"

definition truncateToTokenBudget ::
  "Message list \<Rightarrow> 'a TokenBudgetConfig_scheme \<Rightarrow> Message list" where
  "truncateToTokenBudget messages config =
     (if length messages = 0 then []
      else
        (let budget = calculateHistoryBudget config in
         if budget \<le> 0 then []
         else rev (walkBackward messages (charsPerToken config) budget 0 (length messages) 0 [])))"

definition noTruncation :: "Message list \<Rightarrow> ThreeTierSplitResult" where
  "noTruncation messages =
     \<lparr>firstPair = [], droppedMessages = [], recentMessages = messages,
      processedThroughIndex = max (int (length messages) - 1) 0, wasTruncated = False\<rparr>"

text \<open>The result of the two fallback exits (budget exhausted, first pair too large).\<close>

definition notApplicable :: "Message list \<Rightarrow> ThreeTierSplitResult" where
  "notApplicable messages =
     \<lparr>firstPair = [], droppedMessages = messages, recentMessages = [],
      processedThroughIndex = int (length messages) - 1, wasTruncated = True\<rparr>"

definition splitForThreeTierMemory ::
  "Message list \<Rightarrow> 'a ThreeTierConfig_scheme \<Rightarrow> ThreeTierSplitResult" where
  "splitForThreeTierMemory messages config =
     (if length messages < MIN_MESSAGES_FOR_FIRST_PAIR then noTruncation messages
      else
        (let cpt = charsPerToken config;
             totalBudget = calculateHistoryBudget config in
         if totalBudget \<le> 0 then notApplicable messages
         else
           (let firstPairTokens = estimateContentTokens (content (messages ! 0)) cpt
                                + estimateContentTokens (content (messages ! 1)) cpt in
            if firstPairTokens \<ge> totalBudget then notApplicable messages
            else
              (let allMessagesTokens = addMessageTokens messages cpt 0 in
               if allMessagesTokens \<le> totalBudget then noTruncation messages
               else
                 (let firstPair = slice 0 (int MIN_MESSAGES_FOR_FIRST_PAIR) messages;
                      recentBudget = totalBudget - firstPairTokens - maxSummaryBudgetTokens config;
                      recentMessages =
                        (if recentBudget > 0
                         then rev (walkBackward messages cpt recentBudget
                                     MIN_MESSAGES_FOR_FIRST_PAIR (length messages) 0 [])
                         else []);
                      recentStartIndex = int (length messages) - int (length recentMessages);
                      droppedMessages =
                        slice (int MIN_MESSAGES_FOR_FIRST_PAIR) recentStartIndex messages
                  in \<lparr>firstPair = firstPair, droppedMessages = droppedMessages,
                       recentMessages = recentMessages,
                       processedThroughIndex = int (length messages) - 1,
                       wasTruncated = True\<rparr>)))))"

section \<open>Collaborators (adapters.ts) and their records (types.ts)\<close>

text \<open>
  \<^verbatim>\<open>UpsertSummaryData\<close> has the three fields of \<^verbatim>\<open>MemoryContext\<close> and two
  more, and \<^verbatim>\<open>MemorySummaryRecord\<close> has those five and three more; the
  records extend each other so that the shared fields keep their names.
\<close>

record MemoryContext =
  entityType :: string
  entityId :: string
  modelKey :: "string option"

record UpsertSummaryData = MemoryContext +
  summary :: string
  summarizedThroughIndex :: int

record MemorySummaryRecord = UpsertSummaryData +
  record_id :: string
  createdAt :: string
  updatedAt :: string

record 'c BuildHistoryInput = BudgetFields +
  allHistory :: "Message list"
  summarizationContext :: 'c

text \<open>
  A collaborator is code of the caller: what it returns may depend on, and may
  change, a world \<open>'w\<close> the orchestrator knows nothing about. An awaited call
  either resolves to a value or fails; \<open>Rejects\<close> stands for a synchronous
  throw as well as for a rejected promise, which an \<^verbatim>\<open>await\<close> inside
  \<^verbatim>\<open>try\<close> treats alike. \<^verbatim>\<open>upsertSummary\<close> is not awaited: a rejection of its
  promise goes to the \<^verbatim>\<open>.catch\<close> handler attached to it, a synchronous throw
  to the enclosing \<^verbatim>\<open>try\<close>, so the two are told apart. Every call is taken to
  return; a promise that never settles is outside this model.
\<close>

datatype 'a outcome = Resolves 'a | Rejects

datatype upsertOutcome = UpsertResolves | UpsertRejects | UpsertThrows

record 'w MemoryStorageAdapter =
  getSummary :: "string \<Rightarrow> string \<Rightarrow> string option \<Rightarrow> 'w
                   \<Rightarrow> MemorySummaryRecord option outcome \<times> 'w"
  upsertSummary :: "UpsertSummaryData \<Rightarrow> 'w \<Rightarrow> upsertOutcome \<times> 'w"

record ('w, 'c) SummarizerAdapter =
  summarize :: "string \<Rightarrow> string option \<Rightarrow> 'c \<Rightarrow> 'w \<Rightarrow> string option outcome \<times> 'w"

text \<open>
  The state a call of the orchestrator runs in: the collaborators' world and
  the log of the collaborator calls made so far, which is what a test spy
  records.
\<close>

datatype 'c call =
    GetSummary string string "string option"
  | Summarize string "string option" 'c
  | UpsertSummary UpsertSummaryData

record ('w, 'c) run =
  world :: 'w
  calls :: "'c call list"

definition callGetSummary ::
  "'w MemoryStorageAdapter \<Rightarrow> MemoryContext \<Rightarrow> ('w, 'c) run
     \<Rightarrow> MemorySummaryRecord option outcome \<times> ('w, 'c) run" where
  "callGetSummary st ctx s =
     (case getSummary st (entityType ctx) (entityId ctx) (modelKey ctx) (world s) of
        (r, w) \<Rightarrow>
          (r, \<lparr>world = w,
               calls = calls s @ [GetSummary (entityType ctx) (entityId ctx) (modelKey ctx)]\<rparr>))"

definition callSummarize ::
  "('w, 'c) SummarizerAdapter \<Rightarrow> string \<Rightarrow> string option \<Rightarrow> 'c \<Rightarrow> ('w, 'c) run
     \<Rightarrow> string option outcome \<times> ('w, 'c) run" where
  "callSummarize sm txt existing sctx s =
     (case summarize sm txt existing sctx (world s) of
        (r, w) \<Rightarrow> (r, \<lparr>world = w, calls = calls s @ [Summarize txt existing sctx]\<rparr>))"

definition callUpsertSummary ::
  "'w MemoryStorageAdapter \<Rightarrow> UpsertSummaryData \<Rightarrow> ('w, 'c) run
     \<Rightarrow> upsertOutcome \<times> ('w, 'c) run" where
  "callUpsertSummary st d s =
     (case upsertSummary st d (world s) of
        (r, w) \<Rightarrow> (r, \<lparr>world = w, calls = calls s @ [UpsertSummary d]\<rparr>))"

section \<open>Memory orchestrator (three-tier-memory-manager.ts)\<close>

definition DEFAULT_MAX_SUMMARY_BUDGET_TOKENS :: int where
  "DEFAULT_MAX_SUMMARY_BUDGET_TOKENS = 500"

text \<open>
  The private fields of the class. Two of them share their name with a field
  of the budget configuration and carry the prefix \<open>this_\<close>. The logger is
  left out: it is called for its side effect only and is taken not to throw.
\<close>

record ('w, 'c) ThreeTierMemoryManager =
  storage :: "'w MemoryStorageAdapter option"
  summarizer :: "('w, 'c) SummarizerAdapter option"
  summarizationEnabled :: bool
  this_maxSummaryBudgetTokens :: int
  this_charsPerToken :: "int option"

record ThreeTierMemoryManagerConfig =
  config_summarizationEnabled :: "bool option"
  defaultMaxSummaryBudgetTokens :: "int option"
  defaultCharsPerToken :: "int option"

text \<open>The constructor, with \<open>None\<close> for an absent \<^verbatim>\<open>config\<close>.\<close>

definition newManager ::
  "'w MemoryStorageAdapter option \<Rightarrow> ('w, 'c) SummarizerAdapter option
     \<Rightarrow> ThreeTierMemoryManagerConfig option \<Rightarrow> ('w, 'c) ThreeTierMemoryManager" where
  "newManager st sm config =
     \<lparr>storage = st, summarizer = sm,
      summarizationEnabled =
        (case Option.bind config config_summarizationEnabled of None \<Rightarrow> True | Some b \<Rightarrow> b),
      this_maxSummaryBudgetTokens =
        (case Option.bind config defaultMaxSummaryBudgetTokens of
           None \<Rightarrow> DEFAULT_MAX_SUMMARY_BUDGET_TOKENS | Some n \<Rightarrow> n),
      this_charsPerToken = Option.bind config defaultCharsPerToken\<rparr>"

definition splitMessages ::
  "('w, 'c) ThreeTierMemoryManager \<Rightarrow> Message list \<Rightarrow> int \<Rightarrow> int \<Rightarrow> string option
     \<Rightarrow> string option \<Rightarrow> ThreeTierSplitResult" where
  "splitMessages mgr messages cw mo sysMsg newMsg =
     (if length messages < MIN_MESSAGES_FOR_FIRST_PAIR then noTruncation messages
      else splitForThreeTierMemory messages
             \<lparr>contextWindow = cw, maxOutputTokens = mo, systemMessage = sysMsg,
              newUserMessage = newMsg, charsPerToken = this_charsPerToken mgr,
              safetyMargin = None,
              maxSummaryBudgetTokens = this_maxSummaryBudgetTokens mgr\<rparr>)"

definition truncateMessages ::
  "('w, 'c) ThreeTierMemoryManager \<Rightarrow> Message list \<Rightarrow> int \<Rightarrow> int \<Rightarrow> string option
     \<Rightarrow> string option \<Rightarrow> Message list" where
  "truncateMessages mgr messages cw mo sysMsg newMsg =
     (if length messages = 0 then messages
      else truncateToTokenBudget messages
             \<lparr>contextWindow = cw, maxOutputTokens = mo, systemMessage = sysMsg,
              newUserMessage = newMsg, charsPerToken = this_charsPerToken mgr,
              safetyMargin = None\<rparr>)"

text \<open>
  The one-argument \<^verbatim>\<open>slice(start)\<close>, and the block that decides which dropped
  messages are not yet summarized (\<^verbatim>\<open>newlyDroppedMessages\<close>).
\<close>

definition sliceFrom :: "int \<Rightarrow> 'a list \<Rightarrow> 'a list" where
  "sliceFrom start xs = slice start (int (length xs)) xs"

definition newlyDropped :: "MemorySummaryRecord option \<Rightarrow> Message list \<Rightarrow> Message list" where
  "newlyDropped existingSummary dropped =
     (case existingSummary of
        None \<Rightarrow> dropped
      | Some r \<Rightarrow>
          if summarizedThroughIndex r > 1 then
            (let alreadySummarizedInDropped = summarizedThroughIndex r - 1 in
             if alreadySummarizedInDropped < int (length dropped)
             then sliceFrom alreadySummarizedInDropped dropped
             else [])
          else dropped)"

text \<open>
  The text handed to the summarizer: one \<^verbatim>\<open>role: content\<close> entry per message,
  joined by blank lines. \<^verbatim>\<open>JSON.stringify\<close>, applied to a multi-part content,
  is a function of the platform and a parameter \<open>json\<close> here.
\<close>

definition roleName :: "MessageRole \<Rightarrow> string" where
  "roleName r =
     (case r of System \<Rightarrow> ''system'' | User \<Rightarrow> ''user''
      | Assistant \<Rightarrow> ''assistant'' | Tool \<Rightarrow> ''tool'')"

fun join :: "string \<Rightarrow> string list \<Rightarrow> string" where
  "join sep [] = []"
| "join sep [x] = x"
| "join sep (x # y # ys) = x @ sep @ join sep (y # ys)"

definition messagesText :: "(ContentPart list \<Rightarrow> string) \<Rightarrow> Message list \<Rightarrow> string" where
  "messagesText json ms =
     join [CHR 0x0A, CHR 0x0A]
       (map (\<lambda>m. roleName (role m) @ '': '' @
                  (case content m of Str t \<Rightarrow> t | Parts ps \<Rightarrow> json ps)) ms)"

definition summaryMessage :: "string \<Rightarrow> Message" where
  "summaryMessage t =
     \<lparr>role = User, content = Str (''[Conversation Summary]'' @ [CHR 0x0A] @ t),
      name = None, toolCallId = None, toolCalls = None\<rparr>"

text \<open>
  The body of the \<^verbatim>\<open>try\<close> block of \<^verbatim>\<open>buildSummaryMessage\<close>. A failed await,
  or a synchronous throw of \<^verbatim>\<open>upsertSummary\<close>, leaves the block with \<open>Inl\<close>;
  a rejected promise of \<^verbatim>\<open>upsertSummary\<close> is handled by its own \<^verbatim>\<open>.catch\<close>
  and the block goes on.
\<close>

datatype failure = GetSummaryFailed | SummarizeFailed | UpsertThrew

definition summaryAttempt ::
  "'w MemoryStorageAdapter \<Rightarrow> ('w, 'c) SummarizerAdapter \<Rightarrow> (ContentPart list \<Rightarrow> string)
     \<Rightarrow> Message list \<Rightarrow> MemoryContext \<Rightarrow> 'c \<Rightarrow> ('w, 'c) run
     \<Rightarrow> (failure + Message option) \<times> ('w, 'c) run" where
  "summaryAttempt st sm json dropped ctx sctx s =
     (case callGetSummary st ctx s of
        (Rejects, s1) \<Rightarrow> (Inl GetSummaryFailed, s1)
      | (Resolves existingSummary, s1) \<Rightarrow>
          (let newlyDroppedMessages = newlyDropped existingSummary dropped in
           if length newlyDroppedMessages = 0 \<and> existingSummary \<noteq> None
           then (Inr (Some (summaryMessage (summary (the existingSummary)))), s1)
           else if length newlyDroppedMessages > 0 then
             (case callSummarize sm (messagesText json newlyDroppedMessages)
                     (map_option summary existingSummary) sctx s1 of
                (Rejects, s2) \<Rightarrow> (Inl SummarizeFailed, s2)
              | (Resolves summaryText, s2) \<Rightarrow>
                  if truthy summaryText then
                    (case callUpsertSummary st
                            \<lparr>entityType = entityType ctx, entityId = entityId ctx,
                             modelKey = modelKey ctx, summary = the summaryText,
                             summarizedThroughIndex = int (length dropped) + 1\<rparr> s2 of
                       (UpsertThrows, s3) \<Rightarrow> (Inl UpsertThrew, s3)
                     | (_, s3) \<Rightarrow> (Inr (Some (summaryMessage (the summaryText))), s3))
                  else if existingSummary \<noteq> None
                  then (Inr (Some (summaryMessage (summary (the existingSummary)))), s2)
                  else (Inr None, s2))
           else (Inr None, s1)))"

text \<open>
  \<^verbatim>\<open>buildSummaryMessage\<close>: the two guards, the \<^verbatim>\<open>try\<close> block, and the
  \<^verbatim>\<open>catch\<close>, which logs and falls through to \<^verbatim>\<open>return null\<close>. The result
  type keeps a place for a failure that would leave the function.
\<close>

definition buildSummaryMessage ::
  "('w, 'c) ThreeTierMemoryManager \<Rightarrow> (ContentPart list \<Rightarrow> string) \<Rightarrow> Message list
     \<Rightarrow> MemoryContext \<Rightarrow> 'c \<Rightarrow> ('w, 'c) run
     \<Rightarrow> (failure + Message option) \<times> ('w, 'c) run" where
  "buildSummaryMessage mgr json dropped ctx sctx s =
     (if length dropped = 0 \<or> \<not> summarizationEnabled mgr then (Inr None, s)
      else
        (case storage mgr of
           None \<Rightarrow> (Inr None, s)
         | Some st \<Rightarrow>
             (case summarizer mgr of
                None \<Rightarrow> (Inr None, s)
              | Some sm \<Rightarrow>
                  (case summaryAttempt st sm json dropped ctx sctx s of
                     (Inl e, s') \<Rightarrow> (Inr None, s')
                   | (Inr r, s') \<Rightarrow> (Inr r, s')))))"

text \<open>The message pushed for a truthy \<^verbatim>\<open>newUserMessage\<close>.\<close>

definition pendingMessage :: "string option \<Rightarrow> Message list" where
  "pendingMessage newMsg =
     (if truthy newMsg
      then [\<lparr>role = User, content = Str (the newMsg), name = None, toolCallId = None,
             toolCalls = None\<rparr>]
      else [])"

text \<open>
  \<^verbatim>\<open>buildHistory\<close>. A failure of the awaited \<^verbatim>\<open>buildSummaryMessage\<close> would
  reject the promise \<^verbatim>\<open>buildHistory\<close> returns: the \<open>Inl\<close> branch.
\<close>

definition buildHistory ::
  "('w, 'c) ThreeTierMemoryManager \<Rightarrow> (ContentPart list \<Rightarrow> string) \<Rightarrow> 'c BuildHistoryInput
     \<Rightarrow> MemoryContext option \<Rightarrow> ('w, 'c) run
     \<Rightarrow> (failure + Message list) \<times> ('w, 'c) run" where
  "buildHistory mgr json inp context s =
     (let splitResult = splitMessages mgr (allHistory inp) (contextWindow inp)
                          (maxOutputTokens inp) (systemMessage inp) (newUserMessage inp) in
      if \<not> wasTruncated splitResult
      then (Inr (allHistory inp @ pendingMessage (newUserMessage inp)), s)
      else if length (firstPair splitResult) = 0
      then (Inr (truncateMessages mgr (allHistory inp) (contextWindow inp)
                   (maxOutputTokens inp) (systemMessage inp) (newUserMessage inp)
                 @ pendingMessage (newUserMessage inp)), s)
      else
        (case (case context of
                 Some ctx \<Rightarrow> buildSummaryMessage mgr json (droppedMessages splitResult) ctx
                               (summarizationContext inp) s
               | None \<Rightarrow> (Inr None, s)) of
           (Inl e, s') \<Rightarrow> (Inl e, s')
         | (Inr summaryMsg, s') \<Rightarrow>
             (Inr (firstPair splitResult
                   @ (case summaryMsg of Some m \<Rightarrow> [m] | None \<Rightarrow> [])
                   @ recentMessages splitResult
                   @ pendingMessage (newUserMessage inp)), s')))"

section \<open>Definitions that follow the specification's words\<close>



text \<open>The estimated token total of a list of messages.\<close>

definition totalTokens :: "int option \<Rightarrow> Message list \<Rightarrow> int" where
  "totalTokens cpt ms = sum_list (map (\<lambda>m. estimateContentTokens (content m) cpt) ms)"

text \<open>
  Sliding-window truncation as the specification words it: walk the list from
  newest to oldest, accumulating estimated tokens, and stop the walk entirely at
  the first message whose inclusion would exceed the budget. The list argument
  of \<open>specWalk\<close> is newest first.
\<close>

fun specWalk :: "int option \<Rightarrow> int \<Rightarrow> int \<Rightarrow> Message list \<Rightarrow> Message list" where
  "specWalk cpt budget used [] = []"
| "specWalk cpt budget used (m # older) =
     (if used + estimateContentTokens (content m) cpt > budget then []
      else m # specWalk cpt budget (used + estimateContentTokens (content m) cpt) older)"

definition specTruncate :: "Message list \<Rightarrow> 'a TokenBudgetConfig_scheme \<Rightarrow> Message list" where
  "specTruncate messages config =
     (if messages = [] \<or> calculateHistoryBudget config \<le> 0 then []
      else rev (specWalk (charsPerToken config) (calculateHistoryBudget config) 0 (rev messages)))"

text \<open>
  The budget parameters one call of \<open>buildHistory\<close> works under: the four
  fields of its input, the manager's characters-per-token ratio and summary
  reservation, and no safety margin override. These are the two configuration
  objects \<open>truncateMessages\<close> and \<open>splitMessages\<close> build.
\<close>

definition historyBudgetConfig ::
  "('w, 'c) ThreeTierMemoryManager \<Rightarrow> 'c BuildHistoryInput \<Rightarrow> TokenBudgetConfig" where
  "historyBudgetConfig mgr inp =
     \<lparr>contextWindow = contextWindow inp, maxOutputTokens = maxOutputTokens inp,
      systemMessage = systemMessage inp, newUserMessage = newUserMessage inp,
      charsPerToken = this_charsPerToken mgr, safetyMargin = None\<rparr>"

definition historyThreeTierConfig ::
  "('w, 'c) ThreeTierMemoryManager \<Rightarrow> 'c BuildHistoryInput \<Rightarrow> ThreeTierConfig" where
  "historyThreeTierConfig mgr inp =
     \<lparr>contextWindow = contextWindow inp, maxOutputTokens = maxOutputTokens inp,
      systemMessage = systemMessage inp, newUserMessage = newUserMessage inp,
      charsPerToken = this_charsPerToken mgr, safetyMargin = None,
      maxSummaryBudgetTokens = this_maxSummaryBudgetTokens mgr\<rparr>"

text \<open>The collaborator calls a run has made since the state \<open>s\<close>.\<close>

definition callsSince :: "('w, 'c) run \<Rightarrow> ('w, 'c) run \<Rightarrow> 'c call list" where
  "callsSince s s' = drop (length (calls s)) (calls s')"

definition isSummarize :: "'c call \<Rightarrow> bool" where
  "isSummarize c = (case c of Summarize t e x \<Rightarrow> True | _ \<Rightarrow> False)"

definition isUpsert :: "'c call \<Rightarrow> bool" where
  "isUpsert c = (case c of UpsertSummary d \<Rightarrow> True | _ \<Rightarrow> False)"

text \<open>
  A storage that persists between calls: a read that follows a write of the
  same key resolves to a record carrying the marker that was written.
\<close>

definition persists :: "'w MemoryStorageAdapter \<Rightarrow> bool" where
  "persists st =
     (\<forall>d w. \<exists>r w'.
        getSummary st (entityType d) (entityId d) (modelKey d) (snd (upsertSummary st d w))
          = (Resolves (Some r), w')
        \<and> summarizedThroughIndex r = summarizedThroughIndex d)"

section \<open>Concrete inputs\<close>

text \<open>The helper \<^verbatim>\<open>msg\<close> of the test suites, and a budget configuration without
  system message, pending message and safety margin override.\<close>

definition msg :: "MessageRole \<Rightarrow> string \<Rightarrow> Message" where
  "msg r t = \<lparr>role = r, content = Str t, name = None, toolCallId = None, toolCalls = None\<rparr>"

definition budgetConfig :: "int \<Rightarrow> int \<Rightarrow> int option \<Rightarrow> TokenBudgetConfig" where
  "budgetConfig cw mo cpt =
     \<lparr>contextWindow = cw, maxOutputTokens = mo, systemMessage = None, newUserMessage = None,
      charsPerToken = cpt, safetyMargin = None\<rparr>"

definition threeTierConfig :: "int \<Rightarrow> int \<Rightarrow> int option \<Rightarrow> int \<Rightarrow> ThreeTierConfig" where
  "threeTierConfig cw mo cpt reserve =
     \<lparr>contextWindow = cw, maxOutputTokens = mo, systemMessage = None, newUserMessage = None,
      charsPerToken = cpt, safetyMargin = None, maxSummaryBudgetTokens = reserve\<rparr>"

text \<open>Five messages of 1, 1, 2, 2 and 1 characters: 7 tokens at one character per
  token.\<close>

definition fiveMessages :: "Message list" where
  "fiveMessages =
     [msg User ''a'', msg Assistant ''b'', msg User ''cc'', msg Assistant ''dd'', msg User ''e'']"

text \<open>
  Collaborator stubs: a storage whose read always resolves to the same value,
  as the mocks of the test suite do; a storage that keeps what is written to it
  between calls; a storage whose read fails; a storage whose write throws; and
  summarizers that resolve to a fixed value or fail.
\<close>

definition fixedStorage :: "MemorySummaryRecord option \<Rightarrow> unit MemoryStorageAdapter" where
  "fixedStorage r =
     \<lparr>getSummary = (\<lambda>t i k w. (Resolves r, w)),
      upsertSummary = (\<lambda>d w. (UpsertResolves, w))\<rparr>"

definition failingStorage :: "unit MemoryStorageAdapter" where
  "failingStorage =
     \<lparr>getSummary = (\<lambda>t i k w. (Rejects, w)),
      upsertSummary = (\<lambda>d w. (UpsertThrows, w))\<rparr>"

definition throwingWriteStorage :: "MemorySummaryRecord option \<Rightarrow> unit MemoryStorageAdapter" where
  "throwingWriteStorage r =
     \<lparr>getSummary = (\<lambda>t i k w. (Resolves r, w)),
      upsertSummary = (\<lambda>d w. (UpsertThrows, w))\<rparr>"

type_synonym db = "string \<times> string \<times> string option \<Rightarrow> MemorySummaryRecord option"

definition memoryStorage :: "db MemoryStorageAdapter" where
  "memoryStorage =
     \<lparr>getSummary = (\<lambda>t i k w. (Resolves (w (t, i, k)), w)),
      upsertSummary = (\<lambda>d w. (UpsertResolves,
         w((entityType d, entityId d, modelKey d) \<mapsto>
            \<lparr>entityType = entityType d, entityId = entityId d, modelKey = modelKey d,
             summary = summary d, summarizedThroughIndex = summarizedThroughIndex d,
             record_id = ''sum-1'', createdAt = ''2024-01-01'', updatedAt = ''2024-01-01''\<rparr>)))\<rparr>"

definition fixedSummarizer :: "string option \<Rightarrow> ('w, unit) SummarizerAdapter" where
  "fixedSummarizer t = \<lparr>summarize = (\<lambda>txt e c w. (Resolves t, w))\<rparr>"

definition failingSummarizer :: "('w, unit) SummarizerAdapter" where
  "failingSummarizer = \<lparr>summarize = (\<lambda>txt e c w. (Rejects, w))\<rparr>"

definition manager ::
  "'w MemoryStorageAdapter \<Rightarrow> ('w, unit) SummarizerAdapter \<Rightarrow> ('w, unit) ThreeTierMemoryManager" where
  "manager st sm =
     \<lparr>storage = Some st, summarizer = Some sm, summarizationEnabled = True,
      this_maxSummaryBudgetTokens = 1, this_charsPerToken = Some 1\<rparr>"

definition defaultContext :: MemoryContext where
  "defaultContext = \<lparr>entityType = ''conversation'', entityId = ''conv-123'', modelKey = None\<rparr>"

definition oldRecord :: "int \<Rightarrow> MemorySummaryRecord" where
  "oldRecord m =
     \<lparr>entityType = ''conversation'', entityId = ''conv-123'', modelKey = None,
      summary = ''Old summary'', summarizedThroughIndex = m,
      record_id = ''sum-1'', createdAt = ''2024-01-01'', updatedAt = ''2024-01-01''\<rparr>"

definition historyInput :: "Message list \<Rightarrow> int \<Rightarrow> string option \<Rightarrow> unit BuildHistoryInput" where
  "historyInput ms cw newMsg =
     \<lparr>contextWindow = cw, maxOutputTokens = 0, systemMessage = None, newUserMessage = newMsg,
      allHistory = ms, summarizationContext = ()\<rparr>"

definition start :: "'w \<Rightarrow> ('w, unit) run" where
  "start w = \<lparr>world = w, calls = []\<rparr>"

text \<open>A stand-in for \<^verbatim>\<open>JSON.stringify\<close> in the concrete runs, none of which has
  a multi-part content.\<close>

definition noJson :: "ContentPart list \<Rightarrow> string" where
  "noJson ps = []"

text \<open>A message whose content is a single image: zero estimated tokens.\<close>

definition imageMessage :: "MessageRole \<Rightarrow> Message" where
  "imageMessage r =
     \<lparr>role = r,
      content = Parts [\<lparr>part_type = ImageUrlPart, part_text = None, image_url = Some ''u''\<rparr>],
      name = None, toolCallId = None, toolCalls = None\<rparr>"

section \<open>The token estimator\<close>


lemma ceilDiv_nonneg: "0 < b \<Longrightarrow> 0 \<le> ceilDiv a b"
proof -
  assume "0 < b"
  then have "0 \<le> real a / real_of_int b" by simp
  then have "\<lceil>0::real\<rceil> \<le> \<lceil>real a / real_of_int b\<rceil>" by (rule ceiling_mono)
  then show ?thesis by (simp add: ceilDiv_def)
qed

lemma estimateStringTokens_nonneg: "0 \<le> estimateStringTokens s cpt"
  by (simp add: estimateStringTokens_def Let_def ceilDiv_nonneg)

lemma estimateContentTokens_nonneg: "0 \<le> estimateContentTokens c cpt"
  by (cases c) (simp_all add: estimateContentTokens_def Let_def ceilDiv_nonneg
      estimateStringTokens_nonneg)

lemma estimator_on_integers:
  "estimateStringTokensNumber str (map_option Num c) = Num (estimateStringTokens str c)"
  "estimateContentTokensNumber cont (map_option Num c) = Num (estimateContentTokens cont c)"
proof -
  have r: "orDefaultNumber (map_option Num c) = Num (orDefault c)"
    by (cases c) (simp_all add: orDefaultNumber_def orDefault_def)
  show s: "estimateStringTokensNumber str (map_option Num c) = Num (estimateStringTokens str c)"
    for str
    by (simp add: estimateStringTokensNumber_def estimateStringTokens_def r lessEqZero_def
        ceilQuotient_def ceilDiv_def Let_def)
  show "estimateContentTokensNumber cont (map_option Num c) = Num (estimateContentTokens cont c)"
    by (cases cont)
      (simp_all add: estimateContentTokensNumber_def estimateContentTokens_def s r lessEqZero_def
        ceilQuotient_def ceilDiv_def Let_def)
qed








section \<open>The budget splitter\<close>

lemma slice_nonneg:
  "0 \<le> a \<Longrightarrow> 0 \<le> b \<Longrightarrow> b \<le> int (length xs) \<Longrightarrow> slice a b xs = take (nat b - nat a) (drop (nat a) xs)"
  by (auto simp: slice_def sliceIndex_def Let_def min_def nat_diff_distrib')

lemma totalTokens_nonneg: "0 \<le> totalTokens cpt ms"
  by (induction ms) (simp_all add: totalTokens_def estimateContentTokens_nonneg)

lemma totalTokens_append: "totalTokens cpt (xs @ ys) = totalTokens cpt xs + totalTokens cpt ys"
  by (simp add: totalTokens_def)

lemma totalTokens_rev: "totalTokens cpt (rev xs) = totalTokens cpt xs"
  by (simp add: totalTokens_def rev_map[symmetric])

lemma addMessageTokens_total: "addMessageTokens ms cpt t = t + totalTokens cpt ms"
  by (induction ms arbitrary: t) (simp_all add: totalTokens_def)

lemma walkBackward_specWalk:
  "n \<le> length messages \<Longrightarrow>
   walkBackward messages cpt budget lo n used kept =
     kept @ specWalk cpt budget used (rev (drop lo (take n messages)))"
proof (induction n arbitrary: used kept)
  case 0
  then show ?case by simp
next
  case (Suc i)
  show ?case
  proof (cases "i < lo")
    case True
    then show ?thesis by simp
  next
    case False
    with Suc.prems have "drop lo (take (Suc i) messages) = drop lo (take i messages) @ [messages ! i]"
      by (simp add: take_Suc_conv_app_nth)
    with False Suc show ?thesis by (simp add: Let_def)
  qed
qed

lemma specWalk_take: "\<exists>k \<le> length xs. specWalk cpt budget used xs = take k xs"
proof (induction xs arbitrary: used)
  case Nil
  then show ?case by simp
next
  case (Cons m older)
  show ?case
  proof (cases "used + estimateContentTokens (content m) cpt > budget")
    case True
    then have "specWalk cpt budget used (m # older) = take 0 (m # older)" by simp
    then show ?thesis by blast
  next
    case False
    from Cons[of "used + estimateContentTokens (content m) cpt"] obtain k
      where "k \<le> length older"
        "specWalk cpt budget (used + estimateContentTokens (content m) cpt) older = take k older"
      by blast
    with False have "specWalk cpt budget used (m # older) = take (Suc k) (m # older)"
      by simp
    with \<open>k \<le> length older\<close> show ?thesis
      by (metis Suc_le_mono length_Cons)
  qed
qed


lemma specWalk_all:
  "used + totalTokens cpt xs \<le> budget \<Longrightarrow> specWalk cpt budget used xs = xs"
proof (induction xs arbitrary: used)
  case Nil
  then show ?case by simp
next
  case (Cons m older)
  have "0 \<le> totalTokens cpt older" by (rule totalTokens_nonneg)
  with Cons.prems have "\<not> used + estimateContentTokens (content m) cpt > budget"
    by (simp add: totalTokens_def)
  moreover from Cons.prems
  have "specWalk cpt budget (used + estimateContentTokens (content m) cpt) older = older"
    by (intro Cons.IH) (simp add: totalTokens_def)
  ultimately show ?case by simp
qed




lemma recent_window:
  "\<exists>k \<le> length messages - lo.
     rev (walkBackward messages cpt budget lo (length messages) used []) =
       drop (length messages - k) messages"
proof -
  obtain k where k: "k \<le> length (rev (drop lo messages))"
    "specWalk cpt budget used (rev (drop lo messages)) = take k (rev (drop lo messages))"
    using specWalk_take by blast
  have "rev (walkBackward messages cpt budget lo (length messages) used []) =
      rev (take k (rev (drop lo messages)))"
    using k(2) by (simp add: walkBackward_specWalk)
  also have "\<dots> = drop (length messages - lo - k) (drop lo messages)"
    by (simp add: rev_take)
  also have "\<dots> = drop (length messages - k) messages"
  proof (cases "lo \<le> length messages")
    case True
    with k(1) have "length messages - lo - k + lo = length messages - k" by simp
    then show ?thesis by (simp add: add.commute)
  next
    case False
    with k(1) show ?thesis by simp
  qed
  finally show ?thesis using k(1) by auto
qed

lemma tiers_concat:
  assumes "2 \<le> length messages" "k \<le> length messages - 2"
  shows "slice 0 2 messages
          @ slice 2 (int (length messages) - int (length (drop (length messages - k) messages))) messages
          @ drop (length messages - k) messages = messages"
proof -
  let ?n = "length messages"
  have len: "length (drop (?n - k) messages) = k" using assms by simp
  have a: "slice 0 2 messages = take 2 messages"
    using assms by (simp add: slice_nonneg)
  have "slice 2 (int ?n - int k) messages = take (nat (int ?n - int k) - nat 2) (drop (nat 2) messages)"
    using assms by (intro slice_nonneg) auto
  then have b: "slice 2 (int ?n - int k) messages = take (?n - k - 2) (drop 2 messages)"
    using assms by (simp add: nat_diff_distrib')
  have "?n - k - 2 + 2 = ?n - k" using assms by arith
  then have c: "drop (?n - k) messages = drop (?n - k - 2) (drop 2 messages)"
    by (simp add: add.commute)
  have "take (?n - k - 2) (drop 2 messages) @ drop (?n - k - 2) (drop 2 messages) = drop 2 messages"
    by (rule append_take_drop_id)
  then have "slice 2 (int ?n - int k) messages @ drop (?n - k) messages = drop 2 messages"
    using b c by simp
  then show ?thesis using a len by simp
qed

lemma budget_fixture:
  "calculateHistoryBudget (threeTierConfig cw mo cpt r) = cw - mo - 200"
  by (simp add: calculateHistoryBudget_def threeTierConfig_def truthy_def DEFAULT_SAFETY_MARGIN_def)

lemma est_msg_unit: "estimateContentTokens (content (msg r t)) (Some 1) = int (length t)"
  by (simp add: msg_def estimateContentTokens_def estimateStringTokens_def orDefault_def ceilDiv_def)

lemma split_fiveMessages:
  "splitForThreeTierMemory fiveMessages (threeTierConfig 206 0 (Some 1) 1) =
     \<lparr>firstPair = [msg User ''a'', msg Assistant ''b''],
      droppedMessages = [msg User ''cc''],
      recentMessages = [msg Assistant ''dd'', msg User ''e''],
      processedThroughIndex = 4, wasTruncated = True\<rparr>"
  by (simp add: splitForThreeTierMemory_def budget_fixture MIN_MESSAGES_FOR_FIRST_PAIR_def
      fiveMessages_def est_msg_unit Let_def slice_def sliceIndex_def)
    (simp add: threeTierConfig_def est_msg_unit)

text \<open>
  Claim C8. For a list of fewer than two messages and any three-tier
  configuration, whatever its available budget, the split reports no
  truncation, with an empty anchor pair, an empty dropped tier and the whole
  input as the recent tier.
\<close>

theorem split_short_not_truncated:
  "length messages < 2 \<Longrightarrow>
     wasTruncated (splitForThreeTierMemory messages config) = False
     \<and> firstPair (splitForThreeTierMemory messages config) = []
     \<and> droppedMessages (splitForThreeTierMemory messages config) = []
     \<and> recentMessages (splitForThreeTierMemory messages config) = messages"
  by (simp add: splitForThreeTierMemory_def MIN_MESSAGES_FOR_FIRST_PAIR_def noTruncation_def)

theorem split_short_not_truncated_witness:
  "length [msg User ''hello''] < 2
   \<and> calculateHistoryBudget (threeTierConfig 100 200 None 50) \<le> 0
   \<and> wasTruncated (splitForThreeTierMemory [msg User ''hello''] (threeTierConfig 100 200 None 50)) = False
   \<and> firstPair (splitForThreeTierMemory [msg User ''hello''] (threeTierConfig 100 200 None 50)) = []
   \<and> droppedMessages (splitForThreeTierMemory [msg User ''hello''] (threeTierConfig 100 200 None 50)) = []
   \<and> recentMessages (splitForThreeTierMemory [msg User ''hello''] (threeTierConfig 100 200 None 50))
       = [msg User ''hello'']"
proof -
  have l: "length [msg User ''hello''] < 2" by simp
  from split_short_not_truncated[OF l, of "threeTierConfig 100 200 None 50"] l
  show ?thesis by (simp add: budget_fixture)
qed

text \<open>
  Claim C1. Whenever the split reports truncation with a non-empty anchor pair,
  the lengths of the anchor pair, the dropped tier and the recent tier add up to
  the length of the input, and the three tiers concatenated in that order are
  the input.
\<close>

theorem three_tier_partition:
  assumes "wasTruncated (splitForThreeTierMemory messages config)"
    and "firstPair (splitForThreeTierMemory messages config) \<noteq> []"
  shows "length (firstPair (splitForThreeTierMemory messages config))
         + length (droppedMessages (splitForThreeTierMemory messages config))
         + length (recentMessages (splitForThreeTierMemory messages config)) = length messages
       \<and> firstPair (splitForThreeTierMemory messages config)
         @ droppedMessages (splitForThreeTierMemory messages config)
         @ recentMessages (splitForThreeTierMemory messages config) = messages"
proof -
  let ?r = "splitForThreeTierMemory messages config"
  let ?n = "length messages"
  let ?cpt = "charsPerToken config"
  let ?rb = "calculateHistoryBudget config
      - (estimateContentTokens (content (messages ! 0)) ?cpt
         + estimateContentTokens (content (messages ! 1)) ?cpt)
      - maxSummaryBudgetTokens config"
  let ?rc = "if ?rb > 0 then rev (walkBackward messages ?cpt ?rb 2 ?n 0 []) else []"
  from assms have n2: "2 \<le> ?n"
    by (auto simp: splitForThreeTierMemory_def MIN_MESSAGES_FOR_FIRST_PAIR_def noTruncation_def
        split: if_splits)
  from assms have shape:
    "firstPair ?r = slice 0 2 messages"
    "recentMessages ?r = ?rc"
    "droppedMessages ?r = slice 2 (int ?n - int (length ?rc)) messages"
    by (auto simp: splitForThreeTierMemory_def MIN_MESSAGES_FOR_FIRST_PAIR_def noTruncation_def
        notApplicable_def Let_def split: if_splits)
  obtain k where k: "k \<le> ?n - 2" "?rc = drop (?n - k) messages"
  proof (cases "?rb > 0")
    case True
    with recent_window[of messages 2 ?cpt ?rb 0] that show ?thesis by auto
  next
    case False
    with that[of 0] show ?thesis by simp
  qed
  have cat: "firstPair ?r @ droppedMessages ?r @ recentMessages ?r = messages"
    unfolding shape k(2) using tiers_concat[OF n2 k(1)] .
  from arg_cong[OF cat, of length]
  have "length (firstPair ?r) + length (droppedMessages ?r) + length (recentMessages ?r) = ?n"
    by (simp only: length_append add.assoc)
  from this cat show ?thesis by (rule conjI)
qed

theorem three_tier_partition_witness:
  "wasTruncated (splitForThreeTierMemory fiveMessages (threeTierConfig 206 0 (Some 1) 1))
   \<and> firstPair (splitForThreeTierMemory fiveMessages (threeTierConfig 206 0 (Some 1) 1)) \<noteq> []
   \<and> length (firstPair (splitForThreeTierMemory fiveMessages (threeTierConfig 206 0 (Some 1) 1)))
      + length (droppedMessages (splitForThreeTierMemory fiveMessages (threeTierConfig 206 0 (Some 1) 1)))
      + length (recentMessages (splitForThreeTierMemory fiveMessages (threeTierConfig 206 0 (Some 1) 1)))
      = length fiveMessages
   \<and> firstPair (splitForThreeTierMemory fiveMessages (threeTierConfig 206 0 (Some 1) 1))
      @ droppedMessages (splitForThreeTierMemory fiveMessages (threeTierConfig 206 0 (Some 1) 1))
      @ recentMessages (splitForThreeTierMemory fiveMessages (threeTierConfig 206 0 (Some 1) 1))
      = fiveMessages"
proof -
  have t: "wasTruncated (splitForThreeTierMemory fiveMessages (threeTierConfig 206 0 (Some 1) 1))"
    by (simp add: split_fiveMessages)
  have f: "firstPair (splitForThreeTierMemory fiveMessages (threeTierConfig 206 0 (Some 1) 1)) \<noteq> []"
    by (simp add: split_fiveMessages)
  from three_tier_partition[OF t f] t f show ?thesis by blast
qed

lemma truncate_eq_spec: "truncateToTokenBudget messages config = specTruncate messages config"
  by (simp add: truncateToTokenBudget_def specTruncate_def Let_def walkBackward_specWalk)




section \<open>The memory orchestrator\<close>

lemma splitMessages_eq:
  "splitMessages mgr (allHistory inp) (contextWindow inp) (maxOutputTokens inp)
     (systemMessage inp) (newUserMessage inp)
   = splitForThreeTierMemory (allHistory inp) (historyThreeTierConfig mgr inp)"
  by (simp add: splitMessages_def splitForThreeTierMemory_def historyThreeTierConfig_def Let_def)

lemma truncateMessages_eq:
  "truncateMessages mgr (allHistory inp) (contextWindow inp) (maxOutputTokens inp)
     (systemMessage inp) (newUserMessage inp)
   = truncateToTokenBudget (allHistory inp) (historyBudgetConfig mgr inp)"
  by (simp add: truncateMessages_def truncateToTokenBudget_def historyBudgetConfig_def Let_def)

lemma historyBudget_eq:
  "calculateHistoryBudget (historyThreeTierConfig mgr inp)
   = calculateHistoryBudget (historyBudgetConfig mgr inp)"
  by (simp add: calculateHistoryBudget_def historyThreeTierConfig_def historyBudgetConfig_def Let_def)

lemma historyCpt:
  "charsPerToken (historyThreeTierConfig mgr inp) = this_charsPerToken mgr"
  "charsPerToken (historyBudgetConfig mgr inp) = this_charsPerToken mgr"
  by (simp_all add: historyThreeTierConfig_def historyBudgetConfig_def)

lemma buildHistory_not_truncated:
  "\<not> wasTruncated (splitForThreeTierMemory (allHistory inp) (historyThreeTierConfig mgr inp)) \<Longrightarrow>
   buildHistory mgr json inp context s
     = (Inr (allHistory inp @ pendingMessage (newUserMessage inp)), s)"
  by (simp add: buildHistory_def splitMessages_eq Let_def)

lemma buildHistory_fallback:
  "wasTruncated (splitForThreeTierMemory (allHistory inp) (historyThreeTierConfig mgr inp)) \<Longrightarrow>
   firstPair (splitForThreeTierMemory (allHistory inp) (historyThreeTierConfig mgr inp)) = [] \<Longrightarrow>
   buildHistory mgr json inp context s
     = (Inr (truncateToTokenBudget (allHistory inp) (historyBudgetConfig mgr inp)
             @ pendingMessage (newUserMessage inp)), s)"
  by (simp add: buildHistory_def splitMessages_eq truncateMessages_eq Let_def)

lemma truncate_all_fit:
  assumes "totalTokens (charsPerToken config) messages \<le> calculateHistoryBudget config"
    and "0 < calculateHistoryBudget config"
  shows "truncateToTokenBudget messages config = messages"
proof -
  from assms(1)
  have "specWalk (charsPerToken config) (calculateHistoryBudget config) 0 (rev messages) = rev messages"
    by (intro specWalk_all) (simp add: totalTokens_rev)
  with assms(2) show ?thesis
    by (simp add: truncate_eq_spec specTruncate_def)
qed

lemma split_fits_cases:
  assumes "totalTokens (charsPerToken config) messages \<le> calculateHistoryBudget config"
    and "0 < calculateHistoryBudget config \<or> length messages < 2"
  shows "splitForThreeTierMemory messages config = noTruncation messages
       \<or> (splitForThreeTierMemory messages config = notApplicable messages
           \<and> 0 < calculateHistoryBudget config)"
  using assms
  by (auto simp: splitForThreeTierMemory_def MIN_MESSAGES_FOR_FIRST_PAIR_def Let_def
      addMessageTokens_total)

text \<open>
  Claim C3, amended. When the available budget is at least the total estimated
  tokens of the history, and is positive or the history has fewer than two
  messages, \<open>buildHistory\<close> returns the history with the pending message
  appended and leaves the run as it found it: no collaborator is called. This
  holds for the empty history as well.
\<close>

theorem history_fits_unchanged:
  assumes "totalTokens (this_charsPerToken mgr) (allHistory inp)
             \<le> calculateHistoryBudget (historyBudgetConfig mgr inp)"
    and "0 < calculateHistoryBudget (historyBudgetConfig mgr inp) \<or> length (allHistory inp) < 2"
  shows "buildHistory mgr json inp context s
           = (Inr (allHistory inp @ pendingMessage (newUserMessage inp)), s)"
proof -
  let ?c3 = "historyThreeTierConfig mgr inp"
  let ?c2 = "historyBudgetConfig mgr inp"
  from assms have a: "totalTokens (charsPerToken ?c3) (allHistory inp) \<le> calculateHistoryBudget ?c3"
    and b: "0 < calculateHistoryBudget ?c3 \<or> length (allHistory inp) < 2"
    by (simp_all add: historyBudget_eq historyCpt)
  from split_fits_cases[OF a b] show ?thesis
  proof
    assume "splitForThreeTierMemory (allHistory inp) ?c3 = noTruncation (allHistory inp)"
    then show ?thesis by (simp add: buildHistory_not_truncated noTruncation_def)
  next
    assume n: "splitForThreeTierMemory (allHistory inp) ?c3 = notApplicable (allHistory inp)
        \<and> 0 < calculateHistoryBudget ?c3"
    then have "truncateToTokenBudget (allHistory inp) ?c2 = allHistory inp"
      using assms(1) by (intro truncate_all_fit) (simp_all add: historyBudget_eq historyCpt)
    with n show ?thesis by (simp add: buildHistory_fallback notApplicable_def)
  qed
qed

text \<open>
  Claim C5. Whenever the split reports truncation with an empty anchor pair,
  \<open>buildHistory\<close> returns the sliding-window truncation of the whole history
  under the same budget parameters, with the pending message appended, and
  calls no collaborator.
\<close>

theorem fallback_sliding_window:
  assumes "wasTruncated (splitForThreeTierMemory (allHistory inp) (historyThreeTierConfig mgr inp))"
    and "firstPair (splitForThreeTierMemory (allHistory inp) (historyThreeTierConfig mgr inp)) = []"
  shows "buildHistory mgr json inp context s
           = (Inr (truncateToTokenBudget (allHistory inp) (historyBudgetConfig mgr inp)
                   @ pendingMessage (newUserMessage inp)), s)
       \<and> callsSince s (snd (buildHistory mgr json inp context s)) = []"
  using assms by (simp add: buildHistory_fallback callsSince_def)

lemma budget_empty_pending:
  "calculateHistoryBudget (config\<lparr>newUserMessage := Some []\<rparr>)
   = calculateHistoryBudget (config\<lparr>newUserMessage := None\<rparr>)"
  by (simp add: calculateHistoryBudget_def truthy_def Let_def)

lemma split_empty_pending:
  "splitForThreeTierMemory ms (config\<lparr>newUserMessage := Some []\<rparr>)
   = splitForThreeTierMemory ms (config\<lparr>newUserMessage := None\<rparr>)"
  by (simp add: splitForThreeTierMemory_def budget_empty_pending Let_def)

lemma truncate_empty_pending:
  "truncateToTokenBudget ms (config\<lparr>newUserMessage := Some []\<rparr>)
   = truncateToTokenBudget ms (config\<lparr>newUserMessage := None\<rparr>)"
  by (simp add: truncateToTokenBudget_def budget_empty_pending Let_def)

lemma history_config_pending:
  "historyThreeTierConfig mgr (inp\<lparr>newUserMessage := m\<rparr>)
     = (historyThreeTierConfig mgr inp)\<lparr>newUserMessage := m\<rparr>"
  "historyBudgetConfig mgr (inp\<lparr>newUserMessage := m\<rparr>)
     = (historyBudgetConfig mgr inp)\<lparr>newUserMessage := m\<rparr>"
  by (simp_all add: historyThreeTierConfig_def historyBudgetConfig_def)

text \<open>
  Claim C10. With the empty string as the pending message \<open>buildHistory\<close>
  behaves as with no pending message: same result and same collaborator calls,
  nothing appended, nothing deducted from the budget.
\<close>

theorem empty_pending_as_absent:
  "buildHistory mgr json (inp\<lparr>newUserMessage := Some []\<rparr>) context s
     = buildHistory mgr json (inp\<lparr>newUserMessage := None\<rparr>) context s
   \<and> pendingMessage (Some []) = []
   \<and> calculateHistoryBudget (historyBudgetConfig mgr (inp\<lparr>newUserMessage := Some []\<rparr>))
     = calculateHistoryBudget (historyBudgetConfig mgr (inp\<lparr>newUserMessage := None\<rparr>))"
proof -
  have p: "pendingMessage (Some []) = []" "pendingMessage None = []"
    by (simp_all add: pendingMessage_def truthy_def)
  have "splitMessages mgr (allHistory inp) (contextWindow inp) (maxOutputTokens inp)
          (systemMessage inp) (Some [])
      = splitMessages mgr (allHistory inp) (contextWindow inp) (maxOutputTokens inp)
          (systemMessage inp) None"
    using splitMessages_eq[of mgr "inp\<lparr>newUserMessage := Some []\<rparr>"]
      splitMessages_eq[of mgr "inp\<lparr>newUserMessage := None\<rparr>"]
    by (simp add: history_config_pending split_empty_pending)
  moreover
  have "truncateMessages mgr (allHistory inp) (contextWindow inp) (maxOutputTokens inp)
          (systemMessage inp) (Some [])
      = truncateMessages mgr (allHistory inp) (contextWindow inp) (maxOutputTokens inp)
          (systemMessage inp) None"
    using truncateMessages_eq[of mgr "inp\<lparr>newUserMessage := Some []\<rparr>"]
      truncateMessages_eq[of mgr "inp\<lparr>newUserMessage := None\<rparr>"]
    by (simp add: history_config_pending truncate_empty_pending)
  ultimately
  have "buildHistory mgr json (inp\<lparr>newUserMessage := Some []\<rparr>) context s
     = buildHistory mgr json (inp\<lparr>newUserMessage := None\<rparr>) context s"
    by (simp add: buildHistory_def p Let_def cong: prod.case_cong option.case_cong sum.case_cong)
  then show ?thesis
    by (simp add: p history_config_pending budget_empty_pending)
qed

lemma buildSummaryMessage_returns:
  "\<exists>r. fst (buildSummaryMessage mgr json dropped ctx sctx s) = Inr r"
  by (simp add: buildSummaryMessage_def split: option.splits prod.splits sum.splits)

text \<open>
  Claim C7. Whatever the storage and the summarizer do on each call (resolve to
  a value or to null, throw, reject, fail on the write), \<open>buildHistory\<close>
  returns a list of messages, and so does the summary resolution return: no
  failure of a collaborator leaves either function.
\<close>

theorem buildHistory_returns:
  "(\<exists>ms. fst (buildHistory mgr json inp context s) = Inr ms)
   \<and> (\<exists>r. fst (buildSummaryMessage mgr json dropped ctx sctx s) = Inr r)"
proof -
  have "\<exists>ms. fst (buildHistory mgr json inp context s) = Inr ms"
  proof (cases "context")
    case None
    then show ?thesis by (simp add: buildHistory_def Let_def)
  next
    case (Some c)
    let ?sp = "splitMessages mgr (allHistory inp) (contextWindow inp) (maxOutputTokens inp)
        (systemMessage inp) (newUserMessage inp)"
    obtain r where "fst (buildSummaryMessage mgr json (droppedMessages ?sp) c
        (summarizationContext inp) s) = Inr r"
      using buildSummaryMessage_returns[of mgr json "droppedMessages ?sp" c
          "summarizationContext inp" s] by (elim exE)
    with Some show ?thesis
      by (auto simp: buildHistory_def Let_def split: prod.splits)
  qed
  then show ?thesis by (simp add: buildSummaryMessage_returns)
qed


lemma newlyDropped_drop:
  "newlyDropped (Some r) dropped = drop (nat (max (summarizedThroughIndex r - 1) 0)) dropped"
  by (simp add: newlyDropped_def sliceFrom_def slice_def sliceIndex_def Let_def max_def)

lemma newlyDropped_None: "newlyDropped None dropped = dropped"
  by (simp add: newlyDropped_def)

lemma attempt_get_rejects:
  assumes "getSummary st (entityType ctx) (entityId ctx) (modelKey ctx) (world s) = (Rejects, w1)"
  shows "summaryAttempt st sm json dropped ctx sctx s =
     (Inl GetSummaryFailed,
      \<lparr>world = w1, calls = calls s @ [GetSummary (entityType ctx) (entityId ctx) (modelKey ctx)]\<rparr>)"
  using assms by (simp add: summaryAttempt_def callGetSummary_def)

lemma attempt_cached:
  assumes "getSummary st (entityType ctx) (entityId ctx) (modelKey ctx) (world s)
             = (Resolves (Some r), w1)"
    and "newlyDropped (Some r) dropped = []"
  shows "summaryAttempt st sm json dropped ctx sctx s =
     (Inr (Some (summaryMessage (summary r))),
      \<lparr>world = w1, calls = calls s @ [GetSummary (entityType ctx) (entityId ctx) (modelKey ctx)]\<rparr>)"
  using assms by (simp add: summaryAttempt_def callGetSummary_def)

lemma attempt_summarize_rejects:
  assumes "getSummary st (entityType ctx) (entityId ctx) (modelKey ctx) (world s)
             = (Resolves ex, w1)"
    and "newlyDropped ex dropped \<noteq> []"
    and "summarize sm (messagesText json (newlyDropped ex dropped)) (map_option summary ex) sctx w1
           = (Rejects, w2)"
  shows "summaryAttempt st sm json dropped ctx sctx s =
     (Inl SummarizeFailed,
      \<lparr>world = w2,
       calls = calls s @ [GetSummary (entityType ctx) (entityId ctx) (modelKey ctx),
                          Summarize (messagesText json (newlyDropped ex dropped))
                            (map_option summary ex) sctx]\<rparr>)"
  using assms by (simp add: summaryAttempt_def callGetSummary_def callSummarize_def)

lemma attempt_summarize_null:
  assumes "getSummary st (entityType ctx) (entityId ctx) (modelKey ctx) (world s)
             = (Resolves ex, w1)"
    and "newlyDropped ex dropped \<noteq> []"
    and "summarize sm (messagesText json (newlyDropped ex dropped)) (map_option summary ex) sctx w1
           = (Resolves t, w2)"
    and "\<not> truthy t"
  shows "summaryAttempt st sm json dropped ctx sctx s =
     (Inr (map_option (\<lambda>r. summaryMessage (summary r)) ex),
      \<lparr>world = w2,
       calls = calls s @ [GetSummary (entityType ctx) (entityId ctx) (modelKey ctx),
                          Summarize (messagesText json (newlyDropped ex dropped))
                            (map_option summary ex) sctx]\<rparr>)"
  using assms by (cases ex) (simp_all add: summaryAttempt_def callGetSummary_def callSummarize_def)

lemma attempt_upsert:
  assumes "getSummary st (entityType ctx) (entityId ctx) (modelKey ctx) (world s)
             = (Resolves ex, w1)"
    and "newlyDropped ex dropped \<noteq> []"
    and "summarize sm (messagesText json (newlyDropped ex dropped)) (map_option summary ex) sctx w1
           = (Resolves t, w2)"
    and "truthy t"
    and "upsertSummary st
           \<lparr>entityType = entityType ctx, entityId = entityId ctx, modelKey = modelKey ctx,
            summary = the t, summarizedThroughIndex = int (length dropped) + 1\<rparr> w2 = (out, w3)"
  shows "summaryAttempt st sm json dropped ctx sctx s =
     (if out = UpsertThrows then Inl UpsertThrew else Inr (Some (summaryMessage (the t))),
      \<lparr>world = w3,
       calls = calls s @ [GetSummary (entityType ctx) (entityId ctx) (modelKey ctx),
                          Summarize (messagesText json (newlyDropped ex dropped))
                            (map_option summary ex) sctx,
                          UpsertSummary
                            \<lparr>entityType = entityType ctx, entityId = entityId ctx,
                             modelKey = modelKey ctx, summary = the t,
                             summarizedThroughIndex = int (length dropped) + 1\<rparr>]\<rparr>)"
  using assms
  by (cases out)
    (simp_all add: summaryAttempt_def callGetSummary_def callSummarize_def callUpsertSummary_def)

lemma buildSummaryMessage_active:
  assumes "summarizationEnabled mgr" "storage mgr = Some st" "summarizer mgr = Some sm"
    "dropped \<noteq> []"
  shows "buildSummaryMessage mgr json dropped ctx sctx s =
     (case summaryAttempt st sm json dropped ctx sctx s of
        (Inl e, s') \<Rightarrow> (Inr None, s') | (Inr r, s') \<Rightarrow> (Inr r, s'))"
  using assms by (simp add: buildSummaryMessage_def)

lemma callsSince_append:
  "callsSince s \<lparr>world = w, calls = calls s @ xs\<rparr> = xs"
  by (simp add: callsSince_def)

lemma callsSince_same: "callsSince s s = []"
  by (simp add: callsSince_def)

lemma attempt_nothing:
  assumes "getSummary st (entityType ctx) (entityId ctx) (modelKey ctx) (world s) = (Resolves None, w1)"
    and "newlyDropped None dropped = []"
  shows "summaryAttempt st sm json dropped ctx sctx s =
     (Inr None,
      \<lparr>world = w1, calls = calls s @ [GetSummary (entityType ctx) (entityId ctx) (modelKey ctx)]\<rparr>)"
  using assms by (simp add: summaryAttempt_def callGetSummary_def)

lemma attempt_upsert_called:
  assumes "list_ex isUpsert (callsSince s (snd (summaryAttempt st sm json dropped ctx sctx s)))"
  shows "\<exists>t w2.
     world (snd (summaryAttempt st sm json dropped ctx sctx s))
       = snd (upsertSummary st
           \<lparr>entityType = entityType ctx, entityId = entityId ctx, modelKey = modelKey ctx,
            summary = t, summarizedThroughIndex = int (length dropped) + 1\<rparr> w2)
     \<and> filter isUpsert (callsSince s (snd (summaryAttempt st sm json dropped ctx sctx s)))
       = [UpsertSummary
           \<lparr>entityType = entityType ctx, entityId = entityId ctx, modelKey = modelKey ctx,
            summary = t, summarizedThroughIndex = int (length dropped) + 1\<rparr>]"
proof -
  let ?A = "summaryAttempt st sm json dropped ctx sctx s"
  obtain og w1 where g: "getSummary st (entityType ctx) (entityId ctx) (modelKey ctx) (world s) = (og, w1)"
    by (cases "getSummary st (entityType ctx) (entityId ctx) (modelKey ctx) (world s)")
  show ?thesis
  proof (cases og)
    case Rejects
    with g assms show ?thesis
      by (simp add: attempt_get_rejects callsSince_append isUpsert_def)
  next
    case (Resolves ex)
    note g' = g[unfolded Resolves]
    show ?thesis
    proof (cases "newlyDropped ex dropped = []")
      case True
      with g' assms show ?thesis
        by (cases ex) (simp_all add: attempt_cached attempt_nothing callsSince_append isUpsert_def)
    next
      case False
      obtain oz w2 where z: "summarize sm (messagesText json (newlyDropped ex dropped))
          (map_option summary ex) sctx w1 = (oz, w2)"
        by (cases "summarize sm (messagesText json (newlyDropped ex dropped))
          (map_option summary ex) sctx w1")
      show ?thesis
      proof (cases oz)
        case Rejects
        with g' False z assms show ?thesis
          by (simp add: attempt_summarize_rejects callsSince_append isUpsert_def)
      next
        case (Resolves t)
        note z' = z[unfolded Resolves]
        show ?thesis
        proof (cases "truthy t")
          case False
          with g' \<open>newlyDropped ex dropped \<noteq> []\<close> z' assms show ?thesis
            by (simp add: attempt_summarize_null callsSince_append isUpsert_def)
        next
          case True
          let ?d = "\<lparr>entityType = entityType ctx, entityId = entityId ctx, modelKey = modelKey ctx,
            summary = the t, summarizedThroughIndex = int (length dropped) + 1\<rparr>"
          obtain out w3 where u: "upsertSummary st ?d w2 = (out, w3)"
            by (cases "upsertSummary st ?d w2")
          from attempt_upsert[OF g' False z' True u]
          have "world (snd ?A) = snd (upsertSummary st ?d w2)"
            and "filter isUpsert (callsSince s (snd ?A)) = [UpsertSummary ?d]"
            by (simp_all add: u callsSince_append isUpsert_def)
          then show ?thesis by blast
        qed
      qed
    qed
  qed
qed

lemma buildSummaryMessage_cached:
  assumes "summarizationEnabled mgr" and "storage mgr = Some st" and "summarizer mgr = Some sm"
    and "dropped \<noteq> []"
    and "getSummary st (entityType ctx) (entityId ctx) (modelKey ctx) (world s)
           = (Resolves (Some r), w1)"
    and "int (length dropped) \<le> max (summarizedThroughIndex r - 1) 0"
  shows "buildSummaryMessage mgr json dropped ctx sctx s =
     (Inr (Some (summaryMessage (summary r))),
      \<lparr>world = w1, calls = calls s @ [GetSummary (entityType ctx) (entityId ctx) (modelKey ctx)]\<rparr>)"
proof -
  from assms(6) have "newlyDropped (Some r) dropped = []"
    by (simp add: newlyDropped_drop)
  from attempt_cached[OF assms(5) this] show ?thesis
    by (simp add: buildSummaryMessage_active[OF assms(1-4)])
qed

lemma buildSummaryMessage_upsert_called:
  assumes "list_ex isUpsert (callsSince s (snd (buildSummaryMessage mgr json dropped ctx sctx s)))"
  shows "\<exists>st sm. summarizationEnabled mgr \<and> storage mgr = Some st \<and> summarizer mgr = Some sm
     \<and> dropped \<noteq> []
     \<and> snd (buildSummaryMessage mgr json dropped ctx sctx s)
         = snd (summaryAttempt st sm json dropped ctx sctx s)"
proof -
  have active: "summarizationEnabled mgr \<and> dropped \<noteq> [] \<and> storage mgr \<noteq> None \<and> summarizer mgr \<noteq> None"
  proof (rule ccontr)
    assume "\<not> ?thesis"
    then have "snd (buildSummaryMessage mgr json dropped ctx sctx s) = s"
      by (auto simp: buildSummaryMessage_def split: option.splits)
    with assms show False by (simp add: callsSince_same)
  qed
  then obtain st sm where a: "storage mgr = Some st" "summarizer mgr = Some sm" by auto
  with active have "snd (buildSummaryMessage mgr json dropped ctx sctx s)
      = snd (summaryAttempt st sm json dropped ctx sctx s)"
    by (simp add: buildSummaryMessage_active split: prod.splits sum.splits)
  with a active show ?thesis by blast
qed

lemma buildHistory_three_tier:
  assumes "wasTruncated (splitForThreeTierMemory (allHistory inp) (historyThreeTierConfig mgr inp))"
    and "firstPair (splitForThreeTierMemory (allHistory inp) (historyThreeTierConfig mgr inp)) \<noteq> []"
  shows "buildHistory mgr json inp (Some ctx) s =
     (case buildSummaryMessage mgr json
             (droppedMessages (splitForThreeTierMemory (allHistory inp) (historyThreeTierConfig mgr inp)))
             ctx (summarizationContext inp) s of
        (Inl e, s') \<Rightarrow> (Inl e, s')
      | (Inr summaryMsg, s') \<Rightarrow>
          (Inr (firstPair (splitForThreeTierMemory (allHistory inp) (historyThreeTierConfig mgr inp))
                @ (case summaryMsg of Some m \<Rightarrow> [m] | None \<Rightarrow> [])
                @ recentMessages (splitForThreeTierMemory (allHistory inp) (historyThreeTierConfig mgr inp))
                @ pendingMessage (newUserMessage inp)), s'))"
  using assms by (simp add: buildHistory_def splitMessages_eq Let_def)

lemma buildHistory_upsert_called:
  assumes "list_ex isUpsert (callsSince s (snd (buildHistory mgr json inp (Some ctx) s)))"
  shows "wasTruncated (splitForThreeTierMemory (allHistory inp) (historyThreeTierConfig mgr inp))
     \<and> firstPair (splitForThreeTierMemory (allHistory inp) (historyThreeTierConfig mgr inp)) \<noteq> []
     \<and> snd (buildHistory mgr json inp (Some ctx) s)
        = snd (buildSummaryMessage mgr json
             (droppedMessages (splitForThreeTierMemory (allHistory inp) (historyThreeTierConfig mgr inp)))
             ctx (summarizationContext inp) s)"
proof -
  let ?sp = "splitForThreeTierMemory (allHistory inp) (historyThreeTierConfig mgr inp)"
  have tr: "wasTruncated ?sp \<and> firstPair ?sp \<noteq> []"
  proof (rule ccontr)
    assume "\<not> ?thesis"
    then have "snd (buildHistory mgr json inp (Some ctx) s) = s"
      by (cases "wasTruncated ?sp") (simp_all add: buildHistory_not_truncated buildHistory_fallback)
    with assms show False by (simp add: callsSince_same)
  qed
  then have "snd (buildHistory mgr json inp (Some ctx) s)
        = snd (buildSummaryMessage mgr json (droppedMessages ?sp) ctx (summarizationContext inp) s)"
    by (simp add: buildHistory_three_tier split: prod.splits sum.splits)
  with tr show ?thesis by blast
qed


lemma repeated_call:
  assumes st: "storage mgr = Some st" and p: "persists st"
    and u: "list_ex isUpsert (callsSince s (snd (buildHistory mgr json inp (Some ctx) s)))"
  shows "(\<exists>t. filter isUpsert (callsSince s (snd (buildHistory mgr json inp (Some ctx) s)))
            = [UpsertSummary
                \<lparr>entityType = entityType ctx, entityId = entityId ctx, modelKey = modelKey ctx,
                 summary = t,
                 summarizedThroughIndex =
                   int (length (droppedMessages
                     (splitForThreeTierMemory (allHistory inp) (historyThreeTierConfig mgr inp)))) + 1\<rparr>])
       \<and> callsSince (snd (buildHistory mgr json inp (Some ctx) s))
            (snd (buildHistory mgr json inp (Some ctx) (snd (buildHistory mgr json inp (Some ctx) s))))
          = [GetSummary (entityType ctx) (entityId ctx) (modelKey ctx)]"
proof -
  let ?sp = "splitForThreeTierMemory (allHistory inp) (historyThreeTierConfig mgr inp)"
  let ?dr = "droppedMessages ?sp"
  let ?s1 = "snd (buildHistory mgr json inp (Some ctx) s)"
  from buildHistory_upsert_called[OF u]
  have tr: "wasTruncated ?sp" and fp: "firstPair ?sp \<noteq> []"
    and s1: "?s1 = snd (buildSummaryMessage mgr json ?dr ctx (summarizationContext inp) s)"
    by blast+
  from u s1
  have "list_ex isUpsert (callsSince s
      (snd (buildSummaryMessage mgr json ?dr ctx (summarizationContext inp) s)))"
    by simp
  from buildSummaryMessage_upsert_called[OF this] st
  obtain sm where en: "summarizationEnabled mgr" and sm: "summarizer mgr = Some sm"
    and ne: "?dr \<noteq> []"
    and s1': "?s1 = snd (summaryAttempt st sm json ?dr ctx (summarizationContext inp) s)"
    using s1 by auto
  from u s1'
  have "list_ex isUpsert (callsSince s
      (snd (summaryAttempt st sm json ?dr ctx (summarizationContext inp) s)))"
    by simp
  from attempt_upsert_called[OF this] obtain t w2
    where w: "world ?s1 = snd (upsertSummary st
           \<lparr>entityType = entityType ctx, entityId = entityId ctx, modelKey = modelKey ctx,
            summary = t, summarizedThroughIndex = int (length ?dr) + 1\<rparr> w2)"
      and f: "filter isUpsert (callsSince s ?s1)
        = [UpsertSummary
           \<lparr>entityType = entityType ctx, entityId = entityId ctx, modelKey = modelKey ctx,
            summary = t, summarizedThroughIndex = int (length ?dr) + 1\<rparr>]"
    using s1' by auto
  from p[unfolded persists_def, rule_format, of
      "\<lparr>entityType = entityType ctx, entityId = entityId ctx, modelKey = modelKey ctx,
        summary = t, summarizedThroughIndex = int (length ?dr) + 1\<rparr>" w2]
  obtain r w' where g: "getSummary st (entityType ctx) (entityId ctx) (modelKey ctx) (world ?s1)
        = (Resolves (Some r), w')"
    and m: "summarizedThroughIndex r = int (length ?dr) + 1"
    using w by auto
  from m have le: "int (length ?dr) \<le> max (summarizedThroughIndex r - 1) 0" by simp
  from buildSummaryMessage_cached[OF en st sm ne g le, of json "summarizationContext inp"]
  have "snd (buildHistory mgr json inp (Some ctx) ?s1)
      = \<lparr>world = w', calls = calls ?s1 @ [GetSummary (entityType ctx) (entityId ctx) (modelKey ctx)]\<rparr>"
    by (simp add: buildHistory_three_tier[OF tr fp])
  then have "callsSince ?s1 (snd (buildHistory mgr json inp (Some ctx) ?s1))
      = [GetSummary (entityType ctx) (entityId ctx) (modelKey ctx)]"
    by (simp add: callsSince_append)
  with f show ?thesis by blast
qed

lemma buildSummaryMessage_writes:
  assumes "summarizationEnabled mgr" and "storage mgr = Some st" and "summarizer mgr = Some sm"
    and "dropped \<noteq> []"
    and g: "getSummary st (entityType ctx) (entityId ctx) (modelKey ctx) (world s) = (Resolves ex, v1)"
    and n: "newlyDropped ex dropped \<noteq> []"
    and z: "summarize sm (messagesText json (newlyDropped ex dropped)) (map_option summary ex) sctx v1
           = (Resolves t, v2)"
    and t: "truthy t"
  shows "filter isUpsert (callsSince s (snd (buildSummaryMessage mgr json dropped ctx sctx s)))
     = [UpsertSummary
         \<lparr>entityType = entityType ctx, entityId = entityId ctx, modelKey = modelKey ctx,
          summary = the t, summarizedThroughIndex = int (length dropped) + 1\<rparr>]"
proof -
  let ?d = "\<lparr>entityType = entityType ctx, entityId = entityId ctx, modelKey = modelKey ctx,
            summary = the t, summarizedThroughIndex = int (length dropped) + 1\<rparr>"
  obtain out v3 where u: "upsertSummary st ?d v2 = (out, v3)"
    by (cases "upsertSummary st ?d v2")
  from attempt_upsert[OF g n z t u] show ?thesis
    by (simp add: buildSummaryMessage_active[OF assms(1-4)] callsSince_append isUpsert_def)
qed

text \<open>
  Claim C4, amended. A record with marker \<open>m\<close> makes the first
  \<open>max (m - 1) 0\<close> dropped messages count as summarized. In an active summary
  resolution with a non-empty dropped tier whose length is at most that count,
  the stored summary is returned and the only collaborator call is the read.
  After an engine call that resolves to a non-empty text the one write made
  carries the marker \<open>length dropped + 1\<close>. A run of \<open>buildHistory\<close> that
  writes a record writes that marker, and when the storage persists, the same
  call repeated right after it makes no engine call.
\<close>

theorem marker_round_trip:
  "newlyDropped (Some r) dropped = drop (nat (max (summarizedThroughIndex r - 1) 0)) dropped
   \<and> (summarizationEnabled mgr \<and> storage mgr = Some st \<and> summarizer mgr = Some sm
        \<and> dropped \<noteq> []
        \<and> getSummary st (entityType ctx) (entityId ctx) (modelKey ctx) (world s)
            = (Resolves (Some r), w1)
        \<and> int (length dropped) \<le> max (summarizedThroughIndex r - 1) 0 \<longrightarrow>
        buildSummaryMessage mgr json dropped ctx sctx s =
          (Inr (Some (summaryMessage (summary r))),
           \<lparr>world = w1,
            calls = calls s @ [GetSummary (entityType ctx) (entityId ctx) (modelKey ctx)]\<rparr>))
   \<and> (summarizationEnabled mgr \<and> storage mgr = Some st \<and> summarizer mgr = Some sm
        \<and> dropped \<noteq> []
        \<and> getSummary st (entityType ctx) (entityId ctx) (modelKey ctx) (world s)
            = (Resolves ex, v1)
        \<and> newlyDropped ex dropped \<noteq> []
        \<and> summarize sm (messagesText json (newlyDropped ex dropped)) (map_option summary ex) sctx v1
            = (Resolves txt, v2)
        \<and> truthy txt \<longrightarrow>
        filter isUpsert (callsSince s (snd (buildSummaryMessage mgr json dropped ctx sctx s)))
          = [UpsertSummary
              \<lparr>entityType = entityType ctx, entityId = entityId ctx, modelKey = modelKey ctx,
               summary = the txt, summarizedThroughIndex = int (length dropped) + 1\<rparr>])
   \<and> (storage mgr = Some st \<and> persists st
        \<and> list_ex isUpsert (callsSince s (snd (buildHistory mgr json inp (Some ctx) s))) \<longrightarrow>
        (\<exists>t. filter isUpsert (callsSince s (snd (buildHistory mgr json inp (Some ctx) s)))
            = [UpsertSummary
                \<lparr>entityType = entityType ctx, entityId = entityId ctx, modelKey = modelKey ctx,
                 summary = t,
                 summarizedThroughIndex =
                   int (length (droppedMessages
                     (splitForThreeTierMemory (allHistory inp) (historyThreeTierConfig mgr inp)))) + 1\<rparr>])
        \<and> \<not> list_ex isSummarize
             (callsSince (snd (buildHistory mgr json inp (Some ctx) s))
                (snd (buildHistory mgr json inp (Some ctx)
                        (snd (buildHistory mgr json inp (Some ctx) s))))))"
proof (intro conjI impI)
  show "newlyDropped (Some r) dropped = drop (nat (max (summarizedThroughIndex r - 1) 0)) dropped"
    by (rule newlyDropped_drop)
next
  assume "summarizationEnabled mgr \<and> storage mgr = Some st \<and> summarizer mgr = Some sm
        \<and> dropped \<noteq> []
        \<and> getSummary st (entityType ctx) (entityId ctx) (modelKey ctx) (world s)
            = (Resolves (Some r), w1)
        \<and> int (length dropped) \<le> max (summarizedThroughIndex r - 1) 0"
  then show "buildSummaryMessage mgr json dropped ctx sctx s =
          (Inr (Some (summaryMessage (summary r))),
           \<lparr>world = w1,
            calls = calls s @ [GetSummary (entityType ctx) (entityId ctx) (modelKey ctx)]\<rparr>)"
    by (elim conjE) (rule buildSummaryMessage_cached)
next
  assume "summarizationEnabled mgr \<and> storage mgr = Some st \<and> summarizer mgr = Some sm
        \<and> dropped \<noteq> []
        \<and> getSummary st (entityType ctx) (entityId ctx) (modelKey ctx) (world s)
            = (Resolves ex, v1)
        \<and> newlyDropped ex dropped \<noteq> []
        \<and> summarize sm (messagesText json (newlyDropped ex dropped)) (map_option summary ex) sctx v1
            = (Resolves txt, v2)
        \<and> truthy txt"
  then show "filter isUpsert (callsSince s (snd (buildSummaryMessage mgr json dropped ctx sctx s)))
          = [UpsertSummary
              \<lparr>entityType = entityType ctx, entityId = entityId ctx, modelKey = modelKey ctx,
               summary = the txt, summarizedThroughIndex = int (length dropped) + 1\<rparr>]"
    by (elim conjE) (rule buildSummaryMessage_writes)
next
  assume a: "storage mgr = Some st \<and> persists st
        \<and> list_ex isUpsert (callsSince s (snd (buildHistory mgr json inp (Some ctx) s)))"
  then show "\<exists>t. filter isUpsert (callsSince s (snd (buildHistory mgr json inp (Some ctx) s)))
            = [UpsertSummary
                \<lparr>entityType = entityType ctx, entityId = entityId ctx, modelKey = modelKey ctx,
                 summary = t,
                 summarizedThroughIndex =
                   int (length (droppedMessages
                     (splitForThreeTierMemory (allHistory inp) (historyThreeTierConfig mgr inp)))) + 1\<rparr>]"
    using repeated_call[of mgr st s json inp ctx] by blast
  from a have "callsSince (snd (buildHistory mgr json inp (Some ctx) s))
            (snd (buildHistory mgr json inp (Some ctx) (snd (buildHistory mgr json inp (Some ctx) s))))
          = [GetSummary (entityType ctx) (entityId ctx) (modelKey ctx)]"
    using repeated_call[of mgr st s json inp ctx] by blast
  then show "\<not> list_ex isSummarize
             (callsSince (snd (buildHistory mgr json inp (Some ctx) s))
                (snd (buildHistory mgr json inp (Some ctx)
                        (snd (buildHistory mgr json inp (Some ctx) s)))))"
    by (simp add: isSummarize_def)
qed

text \<open>
  Claim C6, amended. In an active summary resolution (summarization enabled,
  both collaborators present, a non-empty dropped tier): when the engine
  resolves to null or to the empty string, the existing summary is returned as
  the summary message if a record exists, otherwise none is; when the storage
  read or the engine call throws or rejects, or the write throws synchronously,
  the failure is caught and no summary message is returned, whether a record
  exists or not. When the read or the engine fails no write is attempted: the
  calls made are the read, or the read and the engine call.
\<close>

theorem summary_failure_fallback:
  assumes "summarizationEnabled mgr" and "storage mgr = Some st" and "summarizer mgr = Some sm"
    and "dropped \<noteq> []"
  shows
    "(getSummary st (entityType ctx) (entityId ctx) (modelKey ctx) (world s) = (Rejects, w1) \<longrightarrow>
        buildSummaryMessage mgr json dropped ctx sctx s =
          (Inr None,
           \<lparr>world = w1,
            calls = calls s @ [GetSummary (entityType ctx) (entityId ctx) (modelKey ctx)]\<rparr>))
     \<and> (getSummary st (entityType ctx) (entityId ctx) (modelKey ctx) (world s) = (Resolves ex, w1)
        \<and> newlyDropped ex dropped \<noteq> []
        \<and> summarize sm (messagesText json (newlyDropped ex dropped)) (map_option summary ex) sctx w1
            = (Rejects, w2) \<longrightarrow>
        buildSummaryMessage mgr json dropped ctx sctx s =
          (Inr None,
           \<lparr>world = w2,
            calls = calls s @ [GetSummary (entityType ctx) (entityId ctx) (modelKey ctx),
                               Summarize (messagesText json (newlyDropped ex dropped))
                                 (map_option summary ex) sctx]\<rparr>))
     \<and> (getSummary st (entityType ctx) (entityId ctx) (modelKey ctx) (world s) = (Resolves ex, w1)
        \<and> newlyDropped ex dropped \<noteq> []
        \<and> summarize sm (messagesText json (newlyDropped ex dropped)) (map_option summary ex) sctx w1
            = (Resolves t, w2)
        \<and> \<not> truthy t \<longrightarrow>
        buildSummaryMessage mgr json dropped ctx sctx s =
          (Inr (map_option (\<lambda>r. summaryMessage (summary r)) ex),
           \<lparr>world = w2,
            calls = calls s @ [GetSummary (entityType ctx) (entityId ctx) (modelKey ctx),
                               Summarize (messagesText json (newlyDropped ex dropped))
                                 (map_option summary ex) sctx]\<rparr>))
     \<and> (getSummary st (entityType ctx) (entityId ctx) (modelKey ctx) (world s) = (Resolves ex, w1)
        \<and> newlyDropped ex dropped \<noteq> []
        \<and> summarize sm (messagesText json (newlyDropped ex dropped)) (map_option summary ex) sctx w1
            = (Resolves t, w2)
        \<and> truthy t
        \<and> upsertSummary st
             \<lparr>entityType = entityType ctx, entityId = entityId ctx, modelKey = modelKey ctx,
              summary = the t, summarizedThroughIndex = int (length dropped) + 1\<rparr> w2
            = (UpsertThrows, w3) \<longrightarrow>
        buildSummaryMessage mgr json dropped ctx sctx s =
          (Inr None,
           \<lparr>world = w3,
            calls = calls s @ [GetSummary (entityType ctx) (entityId ctx) (modelKey ctx),
                               Summarize (messagesText json (newlyDropped ex dropped))
                                 (map_option summary ex) sctx,
                               UpsertSummary
                                 \<lparr>entityType = entityType ctx, entityId = entityId ctx,
                                  modelKey = modelKey ctx, summary = the t,
                                  summarizedThroughIndex = int (length dropped) + 1\<rparr>]\<rparr>))"
  by (simp add: buildSummaryMessage_active[OF assms] attempt_get_rejects
      attempt_summarize_rejects attempt_summarize_null attempt_upsert)

section \<open>Concrete runs of the orchestrator\<close>

lemma fixture_no_pending:
  "(threeTierConfig cw mo cpt r)\<lparr>newUserMessage := None\<rparr> = threeTierConfig cw mo cpt r"
  "(budgetConfig cw mo cpt)\<lparr>newUserMessage := None\<rparr> = budgetConfig cw mo cpt"
  by (simp_all add: threeTierConfig_def budgetConfig_def)

lemma history_config_fixture:
  "historyBudgetConfig (manager st sm) (historyInput ms cw nm)
     = (budgetConfig cw 0 (Some 1))\<lparr>newUserMessage := nm\<rparr>"
  "historyThreeTierConfig (manager st sm) (historyInput ms cw nm)
     = (threeTierConfig cw 0 (Some 1) 1)\<lparr>newUserMessage := nm\<rparr>"
  by (simp_all add: historyThreeTierConfig_def historyBudgetConfig_def manager_def historyInput_def
      threeTierConfig_def budgetConfig_def)

lemma input_fixture:
  "allHistory (historyInput ms cw nm) = ms"
  "newUserMessage (historyInput ms cw nm) = nm"
  "summarizationContext (historyInput ms cw nm) = ()"
  by (simp_all add: historyInput_def)

lemma manager_fixture:
  "this_charsPerToken (manager st sm) = Some 1"
  "storage (manager st sm) = Some st"
  "summarizer (manager st sm) = Some sm"
  "summarizationEnabled (manager st sm)"
  by (simp_all add: manager_def)

lemma budget_pending_fixture:
  "calculateHistoryBudget ((budgetConfig cw 0 (Some 1))\<lparr>newUserMessage := Some ''q''\<rparr>) = cw - 201"
  "calculateHistoryBudget ((threeTierConfig cw 0 (Some 1) 1)\<lparr>newUserMessage := Some ''q''\<rparr>) = cw - 201"
  "calculateHistoryBudget (budgetConfig cw 0 (Some 1)) = cw - 200"
  by (simp_all add: calculateHistoryBudget_def budgetConfig_def threeTierConfig_def truthy_def
      DEFAULT_SAFETY_MARGIN_def estimateStringTokens_def orDefault_def ceilDiv_def)

lemma pending_q: "pendingMessage (Some ''q'') = [msg User ''q'']"
  by (simp add: pendingMessage_def truthy_def msg_def)

lemma total_unit_nil: "totalTokens (Some 1) [] = 0"
  by (simp add: totalTokens_def)

lemma total_unit_Cons: "totalTokens (Some 1) (msg r t # ms) = int (length t) + totalTokens (Some 1) ms"
  by (simp add: totalTokens_def est_msg_unit)

theorem history_fits_unchanged_witness:
  "totalTokens (Some 1) [msg User ''a'', msg Assistant ''b'']
     \<le> calculateHistoryBudget
          (historyBudgetConfig (manager (fixedStorage None) (fixedSummarizer (Some ''S'')))
             (historyInput [msg User ''a'', msg Assistant ''b''] 210 (Some ''q'')))
   \<and> 0 < calculateHistoryBudget
          (historyBudgetConfig (manager (fixedStorage None) (fixedSummarizer (Some ''S'')))
             (historyInput [msg User ''a'', msg Assistant ''b''] 210 (Some ''q'')))
   \<and> buildHistory (manager (fixedStorage None) (fixedSummarizer (Some ''S''))) noJson
        (historyInput [msg User ''a'', msg Assistant ''b''] 210 (Some ''q''))
        (Some defaultContext) (start ())
       = (Inr [msg User ''a'', msg Assistant ''b'', msg User ''q''], start ())"
proof -
  let ?m = "manager (fixedStorage None) (fixedSummarizer (Some ''S''))"
  let ?i = "historyInput [msg User ''a'', msg Assistant ''b''] 210 (Some ''q'')"
  have a: "totalTokens (this_charsPerToken ?m) (allHistory ?i)
      \<le> calculateHistoryBudget (historyBudgetConfig ?m ?i)"
    by (simp add: history_config_fixture input_fixture manager_fixture budget_pending_fixture
        total_unit_nil total_unit_Cons)
  have b: "0 < calculateHistoryBudget (historyBudgetConfig ?m ?i) \<or> length (allHistory ?i) < 2"
    by (simp add: history_config_fixture budget_pending_fixture)
  from history_fits_unchanged[OF a b, of noJson "Some defaultContext" "start ()"] a b
  show ?thesis
    by (simp add: history_config_fixture input_fixture manager_fixture budget_pending_fixture
        pending_q)
qed

lemma est_image: "estimateContentTokens (content (imageMessage r)) (Some 1) = 0"
  by (simp add: imageMessage_def estimateContentTokens_def orDefault_def ceilDiv_def)

text \<open>
  Two image-only messages estimate to zero tokens. With a context window of 200
  the available budget is \<open>0\<close>, which is at least the total; the split
  reports an exhausted budget and \<open>buildHistory\<close> returns the empty
  sliding window, not the history.
\<close>

theorem history_fits_zero_budget_counterexample:
  "[imageMessage User, imageMessage Assistant] \<noteq> []
   \<and> totalTokens (Some 1) [imageMessage User, imageMessage Assistant]
       \<le> calculateHistoryBudget
            (historyBudgetConfig (manager (fixedStorage None) (fixedSummarizer None))
               (historyInput [imageMessage User, imageMessage Assistant] 200 None))
   \<and> fst (buildHistory (manager (fixedStorage None) (fixedSummarizer None)) noJson
        (historyInput [imageMessage User, imageMessage Assistant] 200 None)
        None (start ())) = Inr []
   \<and> fst (buildHistory (manager (fixedStorage None) (fixedSummarizer None)) noJson
        (historyInput [imageMessage User, imageMessage Assistant] 200 None)
        None (start ())) \<noteq> Inr [imageMessage User, imageMessage Assistant]"
proof -
  let ?m = "manager (fixedStorage None) (fixedSummarizer None)"
  let ?ms = "[imageMessage User, imageMessage Assistant]"
  let ?i = "historyInput ?ms 200 None"
  have sp: "splitForThreeTierMemory ?ms (threeTierConfig 200 0 (Some 1) 1) = notApplicable ?ms"
    by (simp add: splitForThreeTierMemory_def MIN_MESSAGES_FOR_FIRST_PAIR_def budget_fixture Let_def)
  have tr: "truncateToTokenBudget ?ms (budgetConfig 200 0 (Some 1)) = []"
    by (simp add: truncateToTokenBudget_def budget_pending_fixture)
  have "buildHistory ?m noJson ?i None (start ()) = (Inr [], start ())"
    using buildHistory_fallback[of ?i ?m noJson None "start ()"]
    by (simp add: history_config_fixture fixture_no_pending input_fixture sp tr notApplicable_def
        pendingMessage_def truthy_def)
  then show ?thesis
    by (simp add: history_config_fixture fixture_no_pending budget_pending_fixture totalTokens_def
        est_image)
qed

lemma split_large_pair:
  "splitForThreeTierMemory [msg User ''aaaa'', msg Assistant ''bbbb'', msg User ''c'']
     ((threeTierConfig 206 0 (Some 1) 1)\<lparr>newUserMessage := Some ''q''\<rparr>)
   = notApplicable [msg User ''aaaa'', msg Assistant ''bbbb'', msg User ''c'']"
  by (simp add: splitForThreeTierMemory_def MIN_MESSAGES_FOR_FIRST_PAIR_def budget_pending_fixture
      Let_def est_msg_unit)
    (simp add: threeTierConfig_def est_msg_unit)

lemma truncate_large_pair:
  "truncateToTokenBudget [msg User ''aaaa'', msg Assistant ''bbbb'', msg User ''c'']
     ((budgetConfig 206 0 (Some 1))\<lparr>newUserMessage := Some ''q''\<rparr>)
   = [msg Assistant ''bbbb'', msg User ''c'']"
  by (simp add: truncateToTokenBudget_def budget_pending_fixture Let_def est_msg_unit)
    (simp add: budgetConfig_def est_msg_unit)

theorem fallback_sliding_window_witness:
  "wasTruncated (splitForThreeTierMemory
       (allHistory (historyInput [msg User ''aaaa'', msg Assistant ''bbbb'', msg User ''c''] 206 (Some ''q'')))
       (historyThreeTierConfig (manager (fixedStorage None) (fixedSummarizer (Some ''S'')))
          (historyInput [msg User ''aaaa'', msg Assistant ''bbbb'', msg User ''c''] 206 (Some ''q''))))
   \<and> firstPair (splitForThreeTierMemory
       (allHistory (historyInput [msg User ''aaaa'', msg Assistant ''bbbb'', msg User ''c''] 206 (Some ''q'')))
       (historyThreeTierConfig (manager (fixedStorage None) (fixedSummarizer (Some ''S'')))
          (historyInput [msg User ''aaaa'', msg Assistant ''bbbb'', msg User ''c''] 206 (Some ''q'')))) = []
   \<and> buildHistory (manager (fixedStorage None) (fixedSummarizer (Some ''S''))) noJson
        (historyInput [msg User ''aaaa'', msg Assistant ''bbbb'', msg User ''c''] 206 (Some ''q''))
        (Some defaultContext) (start ())
       = (Inr [msg Assistant ''bbbb'', msg User ''c'', msg User ''q''], start ())
   \<and> callsSince (start ())
        (snd (buildHistory (manager (fixedStorage None) (fixedSummarizer (Some ''S''))) noJson
           (historyInput [msg User ''aaaa'', msg Assistant ''bbbb'', msg User ''c''] 206 (Some ''q''))
           (Some defaultContext) (start ()))) = []"
proof -
  let ?m = "manager (fixedStorage None) (fixedSummarizer (Some ''S''))"
  let ?i = "historyInput [msg User ''aaaa'', msg Assistant ''bbbb'', msg User ''c''] 206 (Some ''q'')"
  have t: "wasTruncated (splitForThreeTierMemory (allHistory ?i) (historyThreeTierConfig ?m ?i))"
    by (simp add: history_config_fixture input_fixture split_large_pair notApplicable_def)
  have f: "firstPair (splitForThreeTierMemory (allHistory ?i) (historyThreeTierConfig ?m ?i)) = []"
    by (simp add: history_config_fixture input_fixture split_large_pair notApplicable_def)
  from fallback_sliding_window[OF t f, of noJson "Some defaultContext" "start ()"]
  have r: "buildHistory ?m noJson ?i (Some defaultContext) (start ())
      = (Inr (truncateToTokenBudget (allHistory ?i) (historyBudgetConfig ?m ?i)
              @ pendingMessage (newUserMessage ?i)), start ())"
    and c: "callsSince (start ()) (snd (buildHistory ?m noJson ?i (Some defaultContext) (start ()))) = []"
    by blast+
  have "truncateToTokenBudget (allHistory ?i) (historyBudgetConfig ?m ?i)
          @ pendingMessage (newUserMessage ?i)
      = [msg Assistant ''bbbb'', msg User ''c'', msg User ''q'']"
    by (simp add: history_config_fixture input_fixture truncate_large_pair pending_q)
  with r have "buildHistory ?m noJson ?i (Some defaultContext) (start ())
      = (Inr [msg Assistant ''bbbb'', msg User ''c'', msg User ''q''], start ())"
    by (simp only:)
  with t f c show ?thesis by (intro conjI)
qed

theorem empty_pending_as_absent_witness:
  "buildHistory (manager (fixedStorage None) (fixedSummarizer (Some ''S''))) noJson
      ((historyInput [msg User ''a'', msg Assistant ''b''] 210 (Some ''q''))\<lparr>newUserMessage := Some []\<rparr>)
      (Some defaultContext) (start ())
    = buildHistory (manager (fixedStorage None) (fixedSummarizer (Some ''S''))) noJson
      ((historyInput [msg User ''a'', msg Assistant ''b''] 210 (Some ''q''))\<lparr>newUserMessage := None\<rparr>)
      (Some defaultContext) (start ())"
  using empty_pending_as_absent[of "manager (fixedStorage None) (fixedSummarizer (Some ''S''))"
      noJson "historyInput [msg User ''a'', msg Assistant ''b''] 210 (Some ''q'')"
      "Some defaultContext" "start ()"]
  by (rule conjunct1)

theorem summary_failure_fallback_witness:
  "buildSummaryMessage (manager failingStorage (fixedSummarizer (Some ''S''))) noJson
      [msg User ''cc''] defaultContext () (start ())
     = (Inr None, \<lparr>world = (), calls = [GetSummary ''conversation'' ''conv-123'' None]\<rparr>)
   \<and> buildSummaryMessage (manager (fixedStorage (Some (oldRecord 1))) failingSummarizer) noJson
      [msg User ''cc''] defaultContext () (start ())
     = (Inr None,
        \<lparr>world = (),
         calls = [GetSummary ''conversation'' ''conv-123'' None,
                  Summarize ''user: cc'' (Some ''Old summary'') ()]\<rparr>)
   \<and> buildSummaryMessage (manager (fixedStorage (Some (oldRecord 1))) (fixedSummarizer None)) noJson
      [msg User ''cc''] defaultContext () (start ())
     = (Inr (Some (summaryMessage ''Old summary'')),
        \<lparr>world = (),
         calls = [GetSummary ''conversation'' ''conv-123'' None,
                  Summarize ''user: cc'' (Some ''Old summary'') ()]\<rparr>)
   \<and> buildSummaryMessage (manager (fixedStorage None) (fixedSummarizer None)) noJson
      [msg User ''cc''] defaultContext () (start ())
     = (Inr None,
        \<lparr>world = (),
         calls = [GetSummary ''conversation'' ''conv-123'' None,
                  Summarize ''user: cc'' None ()]\<rparr>)
   \<and> buildSummaryMessage (manager (throwingWriteStorage None) (fixedSummarizer (Some ''S''))) noJson
      [msg User ''cc''] defaultContext () (start ())
     = (Inr None,
        \<lparr>world = (),
         calls = [GetSummary ''conversation'' ''conv-123'' None,
                  Summarize ''user: cc'' None (),
                  UpsertSummary
                    \<lparr>entityType = ''conversation'', entityId = ''conv-123'', modelKey = None,
                     summary = ''S'', summarizedThroughIndex = 2\<rparr>]\<rparr>)"
proof -
  have ne: "[msg User ''cc''] \<noteq> []" by simp
  have ctx: "entityType defaultContext = ''conversation''" "entityId defaultContext = ''conv-123''"
    "modelKey defaultContext = None"
    by (simp_all add: defaultContext_def)
  have mt: "messagesText noJson [msg User ''cc''] = ''user: cc''"
    by (simp add: messagesText_def msg_def roleName_def)
  have st: "world (start ()) = ()" "calls (start ()) = []" by (simp_all add: start_def)
  have nd: "newlyDropped (Some (oldRecord 1)) [msg User ''cc''] = [msg User ''cc'']"
    "newlyDropped None [msg User ''cc''] = [msg User ''cc'']"
    by (simp_all add: newlyDropped_def oldRecord_def)
  have old: "summary (oldRecord 1) = ''Old summary''" by (simp add: oldRecord_def)
  have 1: "buildSummaryMessage (manager failingStorage (fixedSummarizer (Some ''S''))) noJson
      [msg User ''cc''] defaultContext () (start ())
     = (Inr None, \<lparr>world = (), calls = [GetSummary ''conversation'' ''conv-123'' None]\<rparr>)"
    using summary_failure_fallback[where mgr = "manager failingStorage (fixedSummarizer (Some ''S''))" and st = "failingStorage" and sm = "fixedSummarizer (Some ''S'')"
          and dropped = "[msg User ''cc'']" and ctx = defaultContext and s = "start ()"
          and ?w1.0 = "()" and json = noJson and sctx = "()" and ex = None and ?w2.0 = "()"
          and t = None and ?w3.0 = "()", OF manager_fixture(4,2,3) ne]
    by (simp add: failingStorage_def ctx st)
  have 2: "buildSummaryMessage (manager (fixedStorage (Some (oldRecord 1))) failingSummarizer) noJson
      [msg User ''cc''] defaultContext () (start ())
     = (Inr None,
        \<lparr>world = (),
         calls = [GetSummary ''conversation'' ''conv-123'' None,
                  Summarize ''user: cc'' (Some ''Old summary'') ()]\<rparr>)"
    using summary_failure_fallback[where mgr = "manager (fixedStorage (Some (oldRecord 1))) failingSummarizer" and st = "fixedStorage (Some (oldRecord 1))" and sm = "failingSummarizer"
          and dropped = "[msg User ''cc'']" and ctx = defaultContext and s = "start ()"
          and ?w1.0 = "()" and json = noJson and sctx = "()" and ex = "Some (oldRecord 1)" and ?w2.0 = "()"
          and t = None and ?w3.0 = "()", OF manager_fixture(4,2,3) ne]
    by (simp add: fixedStorage_def failingSummarizer_def ctx st nd mt old)
  have 3: "buildSummaryMessage (manager (fixedStorage (Some (oldRecord 1))) (fixedSummarizer None)) noJson
      [msg User ''cc''] defaultContext () (start ())
     = (Inr (Some (summaryMessage ''Old summary'')),
        \<lparr>world = (),
         calls = [GetSummary ''conversation'' ''conv-123'' None,
                  Summarize ''user: cc'' (Some ''Old summary'') ()]\<rparr>)"
    using summary_failure_fallback[where mgr = "manager (fixedStorage (Some (oldRecord 1))) (fixedSummarizer None)" and st = "fixedStorage (Some (oldRecord 1))" and sm = "fixedSummarizer None"
          and dropped = "[msg User ''cc'']" and ctx = defaultContext and s = "start ()"
          and ?w1.0 = "()" and json = noJson and sctx = "()" and ex = "Some (oldRecord 1)" and ?w2.0 = "()"
          and t = None and ?w3.0 = "()", OF manager_fixture(4,2,3) ne]
    by (simp add: fixedStorage_def fixedSummarizer_def ctx st nd mt old truthy_def)
  have 4: "buildSummaryMessage (manager (fixedStorage None) (fixedSummarizer None)) noJson
      [msg User ''cc''] defaultContext () (start ())
     = (Inr None,
        \<lparr>world = (),
         calls = [GetSummary ''conversation'' ''conv-123'' None,
                  Summarize ''user: cc'' None ()]\<rparr>)"
    using summary_failure_fallback[where mgr = "manager (fixedStorage None) (fixedSummarizer None)" and st = "fixedStorage None" and sm = "fixedSummarizer None"
          and dropped = "[msg User ''cc'']" and ctx = defaultContext and s = "start ()"
          and ?w1.0 = "()" and json = noJson and sctx = "()" and ex = None and ?w2.0 = "()"
          and t = None and ?w3.0 = "()", OF manager_fixture(4,2,3) ne]
    by (simp add: fixedStorage_def fixedSummarizer_def ctx st nd mt truthy_def)
  have 5: "buildSummaryMessage (manager (throwingWriteStorage None) (fixedSummarizer (Some ''S''))) noJson
      [msg User ''cc''] defaultContext () (start ())
     = (Inr None,
        \<lparr>world = (),
         calls = [GetSummary ''conversation'' ''conv-123'' None,
                  Summarize ''user: cc'' None (),
                  UpsertSummary
                    \<lparr>entityType = ''conversation'', entityId = ''conv-123'', modelKey = None,
                     summary = ''S'', summarizedThroughIndex = 2\<rparr>]\<rparr>)"
    using summary_failure_fallback[where mgr = "manager (throwingWriteStorage None) (fixedSummarizer (Some ''S''))"
          and st = "throwingWriteStorage None" and sm = "fixedSummarizer (Some ''S'')"
          and dropped = "[msg User ''cc'']" and ctx = defaultContext and s = "start ()"
          and ?w1.0 = "()" and json = noJson and sctx = "()" and ex = None and ?w2.0 = "()"
          and t = "Some ''S''" and ?w3.0 = "()", OF manager_fixture(4,2,3) ne]
    by (simp add: throwingWriteStorage_def fixedSummarizer_def ctx st nd mt truthy_def)
  from 1 2 3 4 5 show ?thesis by (intro conjI)
qed

text \<open>
  A record exists and the summarizer throws: no summary message is returned,
  not the existing summary.
\<close>

theorem summarizer_throws_counterexample:
  "getSummary (fixedStorage (Some (oldRecord 1))) ''conversation'' ''conv-123'' None ()
     = (Resolves (Some (oldRecord 1)), ())
   \<and> fst (buildSummaryMessage (manager (fixedStorage (Some (oldRecord 1))) failingSummarizer) noJson
        [msg User ''cc''] defaultContext () (start ())) = Inr None
   \<and> fst (buildSummaryMessage (manager (fixedStorage (Some (oldRecord 1))) failingSummarizer) noJson
        [msg User ''cc''] defaultContext () (start ()))
      \<noteq> Inr (Some (summaryMessage (summary (oldRecord 1))))"
  by (simp add: buildSummaryMessage_def manager_def summaryAttempt_def callGetSummary_def
      callSummarize_def fixedStorage_def failingSummarizer_def newlyDropped_def oldRecord_def
      defaultContext_def start_def Let_def)

text \<open>
  A record with marker 1 and an empty dropped tier: the length of the tier is
  the count \<open>max (1 - 1) 0\<close>, and the resolution returns nothing, without
  reading the storage.
\<close>

theorem marker_round_trip_counterexample:
  "getSummary (fixedStorage (Some (oldRecord 1))) ''conversation'' ''conv-123'' None ()
     = (Resolves (Some (oldRecord 1)), ())
   \<and> int (length ([] :: Message list)) = max (summarizedThroughIndex (oldRecord 1) - 1) 0
   \<and> fst (buildSummaryMessage (manager (fixedStorage (Some (oldRecord 1))) (fixedSummarizer (Some ''S'')))
        noJson [] defaultContext () (start ())) = Inr None
   \<and> fst (buildSummaryMessage (manager (fixedStorage (Some (oldRecord 1))) (fixedSummarizer (Some ''S'')))
        noJson [] defaultContext () (start ()))
      \<noteq> Inr (Some (summaryMessage (summary (oldRecord 1))))"
  by (simp add: buildSummaryMessage_def fixedStorage_def oldRecord_def)

lemma persists_memoryStorage: "persists memoryStorage"
  by (simp add: persists_def memoryStorage_def)

lemma first_run:
  "buildHistory (manager memoryStorage (fixedSummarizer (Some ''S''))) noJson
     (historyInput fiveMessages 206 None) (Some defaultContext) (start (\<lambda>k. None))
   = (Inr [msg User ''a'', msg Assistant ''b'', summaryMessage ''S'',
           msg Assistant ''dd'', msg User ''e''],
      \<lparr>world = (\<lambda>k. None)((''conversation'', ''conv-123'', None) \<mapsto>
                 \<lparr>entityType = ''conversation'', entityId = ''conv-123'', modelKey = None,
                  summary = ''S'', summarizedThroughIndex = 2,
                  record_id = ''sum-1'', createdAt = ''2024-01-01'', updatedAt = ''2024-01-01''\<rparr>),
       calls = [GetSummary ''conversation'' ''conv-123'' None,
                Summarize ''user: cc'' None (),
                UpsertSummary
                  \<lparr>entityType = ''conversation'', entityId = ''conv-123'', modelKey = None,
                   summary = ''S'', summarizedThroughIndex = 2\<rparr>]\<rparr>)"
proof -
  let ?m = "manager memoryStorage (fixedSummarizer (Some ''S''))"
  let ?i = "historyInput fiveMessages 206 None"
  have sp: "splitForThreeTierMemory (allHistory ?i) (historyThreeTierConfig ?m ?i) =
     \<lparr>firstPair = [msg User ''a'', msg Assistant ''b''],
      droppedMessages = [msg User ''cc''],
      recentMessages = [msg Assistant ''dd'', msg User ''e''],
      processedThroughIndex = 4, wasTruncated = True\<rparr>"
    by (simp add: history_config_fixture fixture_no_pending input_fixture split_fiveMessages)
  have g: "getSummary memoryStorage (entityType defaultContext) (entityId defaultContext)
      (modelKey defaultContext) (world (start (\<lambda>k. None))) = (Resolves None, (\<lambda>k. None))"
    by (simp add: memoryStorage_def start_def)
  have n: "newlyDropped None [msg User ''cc''] \<noteq> []" by (simp add: newlyDropped_def)
  have z: "summarize (fixedSummarizer (Some ''S''))
      (messagesText noJson (newlyDropped None [msg User ''cc''])) (map_option summary None) ()
      (\<lambda>k. None) = (Resolves (Some ''S''), (\<lambda>k. None))"
    by (simp add: fixedSummarizer_def)
  have t: "truthy (Some ''S'')" by (simp add: truthy_def)
  have u: "upsertSummary memoryStorage
      \<lparr>entityType = entityType defaultContext, entityId = entityId defaultContext,
       modelKey = modelKey defaultContext, summary = the (Some ''S''),
       summarizedThroughIndex = int (length [msg User ''cc'']) + 1\<rparr> (\<lambda>k. None)
     = (UpsertResolves,
        (\<lambda>k. None)((''conversation'', ''conv-123'', None) \<mapsto>
                 \<lparr>entityType = ''conversation'', entityId = ''conv-123'', modelKey = None,
                  summary = ''S'', summarizedThroughIndex = 2,
                  record_id = ''sum-1'', createdAt = ''2024-01-01'', updatedAt = ''2024-01-01''\<rparr>))"
    by (simp add: memoryStorage_def defaultContext_def)
  have a: "buildSummaryMessage ?m noJson [msg User ''cc''] defaultContext () (start (\<lambda>k. None))
     = (Inr (Some (summaryMessage ''S'')),
        \<lparr>world = (\<lambda>k. None)((''conversation'', ''conv-123'', None) \<mapsto>
                 \<lparr>entityType = ''conversation'', entityId = ''conv-123'', modelKey = None,
                  summary = ''S'', summarizedThroughIndex = 2,
                  record_id = ''sum-1'', createdAt = ''2024-01-01'', updatedAt = ''2024-01-01''\<rparr>),
       calls = [GetSummary ''conversation'' ''conv-123'' None,
                Summarize ''user: cc'' None (),
                UpsertSummary
                  \<lparr>entityType = ''conversation'', entityId = ''conv-123'', modelKey = None,
                   summary = ''S'', summarizedThroughIndex = 2\<rparr>]\<rparr>)"
    using attempt_upsert[OF g n z t u]
    by (simp add: buildSummaryMessage_active[OF manager_fixture(4,2,3)] newlyDropped_def
        messagesText_def msg_def roleName_def defaultContext_def start_def)
  have tr: "wasTruncated (splitForThreeTierMemory (allHistory ?i) (historyThreeTierConfig ?m ?i))"
    and fp: "firstPair (splitForThreeTierMemory (allHistory ?i) (historyThreeTierConfig ?m ?i)) \<noteq> []"
    by (simp_all add: sp)
  have i: "summarizationContext ?i = ()" "newUserMessage ?i = None"
    by (simp_all add: input_fixture)
  show ?thesis
    by (simp add: buildHistory_three_tier[OF tr fp] sp i a pendingMessage_def truthy_def)
qed

theorem marker_round_trip_witness:
  "newlyDropped (Some (oldRecord 3)) [msg User ''x'', msg Assistant ''y'', msg User ''z'']
     = [msg User ''z'']
   \<and> buildSummaryMessage (manager (fixedStorage (Some (oldRecord 2))) (fixedSummarizer (Some ''S'')))
        noJson [msg User ''cc''] defaultContext () (start ())
      = (Inr (Some (summaryMessage ''Old summary'')),
         \<lparr>world = (), calls = [GetSummary ''conversation'' ''conv-123'' None]\<rparr>)
   \<and> filter isUpsert
        (callsSince (start (\<lambda>k. None))
          (snd (buildSummaryMessage (manager memoryStorage (fixedSummarizer (Some ''S''))) noJson
                 [msg User ''cc''] defaultContext () (start (\<lambda>k. None)))))
      = [UpsertSummary
          \<lparr>entityType = ''conversation'', entityId = ''conv-123'', modelKey = None,
           summary = ''S'', summarizedThroughIndex = 2\<rparr>]
   \<and> persists memoryStorage
   \<and> list_ex isUpsert
        (callsSince (start (\<lambda>k. None))
          (snd (buildHistory (manager memoryStorage (fixedSummarizer (Some ''S''))) noJson
                 (historyInput fiveMessages 206 None) (Some defaultContext) (start (\<lambda>k. None)))))
   \<and> \<not> list_ex isSummarize
        (callsSince
          (snd (buildHistory (manager memoryStorage (fixedSummarizer (Some ''S''))) noJson
                 (historyInput fiveMessages 206 None) (Some defaultContext) (start (\<lambda>k. None))))
          (snd (buildHistory (manager memoryStorage (fixedSummarizer (Some ''S''))) noJson
                 (historyInput fiveMessages 206 None) (Some defaultContext)
                 (snd (buildHistory (manager memoryStorage (fixedSummarizer (Some ''S''))) noJson
                   (historyInput fiveMessages 206 None) (Some defaultContext) (start (\<lambda>k. None)))))))"
proof -
  let ?m = "manager memoryStorage (fixedSummarizer (Some ''S''))"
  let ?i = "historyInput fiveMessages 206 None"
  let ?s0 = "start (\<lambda>k. None) :: (db, unit) run"
  have 1: "newlyDropped (Some (oldRecord 3)) [msg User ''x'', msg Assistant ''y'', msg User ''z'']
     = [msg User ''z'']"
    using marker_round_trip[where r = "oldRecord 3"
        and dropped = "[msg User ''x'', msg Assistant ''y'', msg User ''z'']", THEN conjunct1]
    by (simp add: oldRecord_def)
  have h2: "summarizationEnabled (manager (fixedStorage (Some (oldRecord 2))) (fixedSummarizer (Some ''S'')))
      \<and> storage (manager (fixedStorage (Some (oldRecord 2))) (fixedSummarizer (Some ''S'')))
          = Some (fixedStorage (Some (oldRecord 2)))
      \<and> summarizer (manager (fixedStorage (Some (oldRecord 2))) (fixedSummarizer (Some ''S'')))
          = Some (fixedSummarizer (Some ''S''))
      \<and> [msg User ''cc''] \<noteq> []
      \<and> getSummary (fixedStorage (Some (oldRecord 2))) (entityType defaultContext)
           (entityId defaultContext) (modelKey defaultContext) (world (start ()))
          = (Resolves (Some (oldRecord 2)), ())
      \<and> int (length [msg User ''cc'']) \<le> max (summarizedThroughIndex (oldRecord 2) - 1) 0"
    by (simp add: manager_fixture fixedStorage_def oldRecord_def)
  have 2: "buildSummaryMessage (manager (fixedStorage (Some (oldRecord 2))) (fixedSummarizer (Some ''S'')))
        noJson [msg User ''cc''] defaultContext () (start ())
      = (Inr (Some (summaryMessage ''Old summary'')),
         \<lparr>world = (), calls = [GetSummary ''conversation'' ''conv-123'' None]\<rparr>)"
    using marker_round_trip[where json = noJson and sctx = "()",
        THEN conjunct2, THEN conjunct1, rule_format, OF h2]
    by (simp add: oldRecord_def defaultContext_def start_def)
  have u: "list_ex isUpsert (callsSince ?s0 (snd (buildHistory ?m noJson ?i (Some defaultContext) ?s0)))"
    unfolding first_run by (simp add: callsSince_def start_def isUpsert_def)
  have h3: "storage ?m = Some memoryStorage \<and> persists memoryStorage
      \<and> list_ex isUpsert (callsSince ?s0 (snd (buildHistory ?m noJson ?i (Some defaultContext) ?s0)))"
    using u by (simp add: manager_fixture persists_memoryStorage)
  have 3: "\<not> list_ex isSummarize
        (callsSince (snd (buildHistory ?m noJson ?i (Some defaultContext) ?s0))
          (snd (buildHistory ?m noJson ?i (Some defaultContext)
                 (snd (buildHistory ?m noJson ?i (Some defaultContext) ?s0)))))"
    using marker_round_trip[THEN conjunct2, THEN conjunct2, THEN conjunct2, rule_format, OF h3]
    by blast
  have h4: "summarizationEnabled ?m \<and> storage ?m = Some memoryStorage
      \<and> summarizer ?m = Some (fixedSummarizer (Some ''S''))
      \<and> [msg User ''cc''] \<noteq> []
      \<and> getSummary memoryStorage (entityType defaultContext) (entityId defaultContext)
           (modelKey defaultContext) (world ?s0) = (Resolves None, (\<lambda>k. None))
      \<and> newlyDropped None [msg User ''cc''] \<noteq> []
      \<and> summarize (fixedSummarizer (Some ''S''))
           (messagesText noJson (newlyDropped None [msg User ''cc''])) (map_option summary None) ()
           (\<lambda>k. None) = (Resolves (Some ''S''), (\<lambda>k. None))
      \<and> truthy (Some ''S'')"
    by (simp add: manager_fixture memoryStorage_def start_def newlyDropped_def fixedSummarizer_def
        truthy_def)
  have 4: "filter isUpsert
        (callsSince ?s0 (snd (buildSummaryMessage ?m noJson [msg User ''cc''] defaultContext () ?s0)))
      = [UpsertSummary
          \<lparr>entityType = ''conversation'', entityId = ''conv-123'', modelKey = None,
           summary = ''S'', summarizedThroughIndex = 2\<rparr>]"
    using marker_round_trip[THEN conjunct2, THEN conjunct2, THEN conjunct1, rule_format, OF h4]
    by (simp add: defaultContext_def)
  from 1 2 4 persists_memoryStorage u 3 show ?thesis by (intro conjI)
qed

theorem buildHistory_returns_witness:
  "(\<exists>ms. fst (buildHistory (manager failingStorage failingSummarizer) noJson
            (historyInput fiveMessages 206 None) (Some defaultContext) (start ())) = Inr ms)
   \<and> (\<exists>r. fst (buildSummaryMessage (manager failingStorage failingSummarizer) noJson
            [msg User ''cc''] defaultContext () (start ())) = Inr r)"
  by (rule buildHistory_returns)

end
